theory Spec2Isabelle
  imports Complex_Main "HOL-Library.AList"
begin

section \<open>Schema types (core/schema/types.ts)\<close>

text \<open>
  Values of TypeScript type \<open>any\<close> (style values, props, custom data) are modelled by a
  JSON-like datatype. A \<open>Record<string, T>\<close> is given by its own properties, as a finite
  map, or as an association list where the enumeration order of the keys is used; in
  \<open>validateElement\<close> of the store and in \<open>getBuiltInRenderer\<close>, which read such an object
  with a key given by the caller, the members inherited from \<open>Object.prototype\<close> are part
  of the model (\<open>recordGet\<close> below). Sizes, timestamps and numeric style values are real
  numbers; a finite number is taken without rounding.
\<close>

datatype jsvalue =
    JUndefined
  | JNull
  | JBool bool
  | JNum real
  | JStr string
  | JArr "jsvalue list"
  | JObj "(string \<times> jsvalue) list"
  | JJson jsvalue
  | JHandler string string

text \<open>
  \<open>JJson v\<close> stands for the string \<open>JSON.stringify(v)\<close>; \<open>JHandler h i\<close> stands for
  the engine's handler method \<open>h\<close> bound to the element with id \<open>i\<close>.
\<close>

fun truthy :: "jsvalue \<Rightarrow> bool" where
  "truthy JUndefined = False"
| "truthy JNull = False"
| "truthy (JBool b) = b"
| "truthy (JNum n) = (n \<noteq> 0)"
| "truthy (JStr s) = (s \<noteq> [])"
| "truthy v = True"

text \<open>
  The values of the type \<open>number\<close> where an operation computes with them as such (the
  zoom fields of the canvas store, the option \<open>maxDepth\<close> of the render engine): \<open>NaN\<close>,
  the two infinities, and the finite numbers, taken as real numbers. \<open>num_le\<close> and
  \<open>num_less\<close> are \<open><=\<close> and \<open><\<close>, false whenever an operand is \<open>NaN\<close>; \<open>num_add\<close> and
  \<open>num_sub\<close> are \<open>+\<close> and \<open>-\<close>, with \<open>Infinity - Infinity\<close> and \<open>-Infinity + Infinity\<close>
  being \<open>NaN\<close>; \<open>Math_min\<close> and \<open>Math_max\<close> return \<open>NaN\<close> whenever an argument is \<open>NaN\<close>.
\<close>

datatype number = NaN | NegInfinity | Finite real | Infinity

fun num_le :: "number \<Rightarrow> number \<Rightarrow> bool" where
  "num_le NaN b = False"
| "num_le a NaN = False"
| "num_le NegInfinity b = True"
| "num_le a Infinity = True"
| "num_le (Finite x) (Finite y) = (x \<le> y)"
| "num_le Infinity b = False"
| "num_le a NegInfinity = False"

fun num_less :: "number \<Rightarrow> number \<Rightarrow> bool" where
  "num_less NaN b = False"
| "num_less a NaN = False"
| "num_less (Finite x) (Finite y) = (x < y)"
| "num_less Infinity b = False"
| "num_less a NegInfinity = False"
| "num_less NegInfinity b = True"
| "num_less a Infinity = True"

fun num_neg :: "number \<Rightarrow> number" where
  "num_neg NaN = NaN"
| "num_neg NegInfinity = Infinity"
| "num_neg (Finite x) = Finite (- x)"
| "num_neg Infinity = NegInfinity"

fun num_add :: "number \<Rightarrow> number \<Rightarrow> number" where
  "num_add NaN b = NaN"
| "num_add a NaN = NaN"
| "num_add (Finite x) (Finite y) = Finite (x + y)"
| "num_add Infinity NegInfinity = NaN"
| "num_add NegInfinity Infinity = NaN"
| "num_add Infinity b = Infinity"
| "num_add a Infinity = Infinity"
| "num_add NegInfinity b = NegInfinity"
| "num_add a NegInfinity = NegInfinity"

definition num_sub :: "number \<Rightarrow> number \<Rightarrow> number" where
  "num_sub a b = num_add a (num_neg b)"

definition Math_min :: "number \<Rightarrow> number \<Rightarrow> number" where
  "Math_min a b = (if a = NaN \<or> b = NaN then NaN else if num_le a b then a else b)"

definition Math_max :: "number \<Rightarrow> number \<Rightarrow> number" where
  "Math_max a b = (if a = NaN \<or> b = NaN then NaN else if num_le a b then b else a)"

definition isFinite :: "number \<Rightarrow> bool" where
  "isFinite a = (case a of Finite x \<Rightarrow> True | _ \<Rightarrow> False)"

text \<open>
  Reading \<open>obj[key]\<close> on a plain object whose prototype is \<open>Object.prototype\<close>: the value
  of an own property; or, for a key that is no own property but the name of a property
  of \<open>Object.prototype\<close>, the inherited member (a function, and for \<open>__proto__\<close> the
  object \<open>Object.prototype\<close> itself), which is truthy; or \<open>undefined\<close>.
\<close>

definition objectPrototypeKeys :: "string list" where
  "objectPrototypeKeys =
     [''constructor'', ''hasOwnProperty'', ''isPrototypeOf'', ''propertyIsEnumerable'',
      ''toLocaleString'', ''toString'', ''valueOf'', ''__proto__'',
      ''__defineGetter__'', ''__defineSetter__'', ''__lookupGetter__'', ''__lookupSetter__'']"

datatype 'a Lookup = Own 'a | Inherited string | Absent

definition recordGet :: "(string \<rightharpoonup> 'a) \<Rightarrow> string \<Rightarrow> 'a Lookup" where
  "recordGet obj key =
     (case obj key of
        Some v \<Rightarrow> Own v
      | None \<Rightarrow> if key \<in> set objectPrototypeKeys then Inherited key else Absent)"

text \<open>
  \<open>obj?.[key]\<close> for one of the fixed keys the code reads from a style or a props object
  (none of them the name of a property of \<open>Object.prototype\<close>).
\<close>

definition propOf :: "(string \<times> jsvalue) list option \<Rightarrow> string \<Rightarrow> jsvalue" where
  "propOf obj k =
     (case obj of
        None \<Rightarrow> JUndefined
      | Some l \<Rightarrow> (case map_of l k of None \<Rightarrow> JUndefined | Some v \<Rightarrow> v))"

datatype JsError = TypeError string | Error string

type_synonym ElementId = string
type_synonym ElementType = string
type_synonym ElementStyle = "(string \<times> jsvalue) list"

record ElementState =
  selected :: bool
  hovered :: bool
  active :: bool
  locked :: bool
  hidden :: bool

record ElementMetadata =
  em_createdAt :: real
  em_updatedAt :: real
  em_createdBy :: "string option"
  em_version :: string
  em_tags :: "string list"
  em_description :: "string option"
  em_category :: "string option"

record ElementWorkletConfig =
  ew_type :: string
  ew_inputProperties :: "string list option"
  ew_parameters :: "(string \<times> jsvalue) list option"

record ElementData =
  ed_type :: ElementType
  ed_id :: ElementId
  ed_name :: string
  ed_style :: ElementStyle
  ed_state :: ElementState
  ed_metadata :: ElementMetadata
  ed_parentId :: "ElementId option"
  ed_childrenIds :: "ElementId list option"
  ed_props :: "(string \<times> jsvalue) list option"
  ed_worklet :: "ElementWorkletConfig option"
  ed_data :: "(string \<times> jsvalue) list option"

text \<open>
  \<open>ElementNode extends ElementData\<close> with the optional field \<open>children\<close>: a node is
  its element data together with \<open>children\<close>, \<open>None\<close> when the field is absent.
\<close>

datatype ElementNode = Node (nodeData: ElementData) (children: "ElementNode list option")

record CanvasGrid =
  cg_enabled :: bool
  cg_size :: real
  cg_color :: string

record CanvasZoom =
  cz_current :: real
  cz_min :: real
  cz_max :: real
  cz_step :: real

record CanvasConfig =
  cc_id :: string
  cc_name :: string
  cc_width :: real
  cc_height :: real
  cc_backgroundColor :: string
  cc_grid :: "CanvasGrid option"
  cc_zoom :: "CanvasZoom option"
  cc_elements :: "ElementId list"

record ProjectConfig =
  pc_id :: string
  pc_name :: string
  pc_description :: "string option"
  pc_createdAt :: real
  pc_updatedAt :: real
  pc_canvas :: CanvasConfig
  pc_elements :: "ElementId \<rightharpoonup> ElementData"
  pc_version :: string

section \<open>SchemaTransformer (core/schema/transformer.ts)\<close>

text \<open>
  \<open>nodeToFlat\<close>: the inner \<open>traverse\<close> stores the node's data (every field but
  \<open>children\<close>) under the node's id, then visits the children in order; a later node with
  the same id overwrites an earlier one.
\<close>

fun traverse :: "ElementNode \<Rightarrow> (ElementId \<rightharpoonup> ElementData) \<Rightarrow> (ElementId \<rightharpoonup> ElementData)" where
  "traverse (Node elementData cs) result =
     (case cs of
        None \<Rightarrow> result(ed_id elementData \<mapsto> elementData)
      | Some l \<Rightarrow> fold traverse l (result(ed_id elementData \<mapsto> elementData)))"

definition nodeToFlat :: "ElementNode \<Rightarrow> (ElementId \<rightharpoonup> ElementData)" where
  "nodeToFlat node = traverse node Map.empty"

text \<open>
  \<open>flatToTree\<close> and \<open>getElementTree\<close> of the store read the map with a root id and with
  the ids listed in \<open>childrenIds\<close>. These ids are taken to be keys of the map or names
  that no object has: an id that is no key of the map but the name of a property of
  \<open>Object.prototype\<close> is outside the model of these two functions.

  \<open>flatToTree\<close> recurses along \<open>childrenIds\<close> and does not return on a map whose
  references form a cycle. The model counts the nesting of calls down from a bound: the
  outer \<open>None\<close> is the call that has not returned within the bound, \<open>Some None\<close> is the
  result \<open>null\<close>, \<open>Some (Some node)\<close> a tree. \<open>forEachChild build ids acc\<close> is the
  \<open>forEach\<close> loop pushing every non-null child tree onto \<open>node.children\<close>.
\<close>

fun forEachChild ::
  "(ElementId \<Rightarrow> ElementNode option option) \<Rightarrow> ElementId list \<Rightarrow> ElementNode list
    \<Rightarrow> ElementNode list option" where
  "forEachChild build [] acc = Some acc"
| "forEachChild build (childId # rest) acc =
     (case build childId of
        None \<Rightarrow> None
      | Some None \<Rightarrow> forEachChild build rest acc
      | Some (Some childNode) \<Rightarrow> forEachChild build rest (acc @ [childNode]))"

primrec flatToTree ::
  "nat \<Rightarrow> (ElementId \<rightharpoonup> ElementData) \<Rightarrow> ElementId \<Rightarrow> ElementNode option option" where
  "flatToTree 0 = (\<lambda>flatData rootId. None)"
| "flatToTree (Suc n) = (\<lambda>flatData rootId.
     (case flatData rootId of
        None \<Rightarrow> Some None
      | Some data \<Rightarrow>
          (let childIds = (case ed_childrenIds data of None \<Rightarrow> [] | Some ids \<Rightarrow> ids)
           in case forEachChild (flatToTree n flatData) childIds [] of
                None \<Rightarrow> None
              | Some cs \<Rightarrow> Some (Some (Node data (Some cs))))))"


text \<open>Trees used to state the round trip: the node data in preorder, the agreement of
  \<open>childrenIds\<close> with \<open>children\<close> at every node, and the tree with every absent
  \<open>children\<close> field replaced by the empty array (all other fields, the parent-child
  structure and the order of the children kept).\<close>

fun preorder :: "ElementNode \<Rightarrow> ElementData list" where
  "preorder (Node d cs) = d # (case cs of None \<Rightarrow> [] | Some l \<Rightarrow> concat (map preorder l))"

fun idsAgree :: "ElementNode \<Rightarrow> bool" where
  "idsAgree (Node d cs) =
     ((case ed_childrenIds d of None \<Rightarrow> [] | Some ids \<Rightarrow> ids)
        = map (\<lambda>c. ed_id (nodeData c)) (case cs of None \<Rightarrow> [] | Some l \<Rightarrow> l)
      \<and> (case cs of None \<Rightarrow> True | Some l \<Rightarrow> list_all idsAgree l))"

fun withChildArrays :: "ElementNode \<Rightarrow> ElementNode" where
  "withChildArrays (Node d cs) =
     Node d (Some (case cs of None \<Rightarrow> [] | Some l \<Rightarrow> map withChildArrays l))"

definition putData ::
  "ElementData \<Rightarrow> (ElementId \<rightharpoonup> ElementData) \<Rightarrow> (ElementId \<rightharpoonup> ElementData)" where
  "putData d m = m(ed_id d \<mapsto> d)"

section \<open>SchemaValidator.validateProject (core/schema/validator.ts)\<close>

record ValidationError =
  ve_field :: string
  ve_message :: string
  ve_value :: "jsvalue option"
  ve_code :: string

record ValidationResult =
  vr_valid :: bool
  vr_errors :: "ValidationError list"
  vr_warnings :: "ValidationError list"

text \<open>The validator's messages are Chinese text, kept as their UTF-8 bytes.\<close>

definition msg_PROJECT_MISSING_ID :: string where
  "msg_PROJECT_MISSING_ID =
     [CHR 0xE9, CHR 0xA1, CHR 0xB9, CHR 0xE7, CHR 0x9B, CHR 0xAE, CHR 0x49, CHR 0x44,
     CHR 0xE4, CHR 0xB8, CHR 0x8D, CHR 0xE8, CHR 0x83, CHR 0xBD, CHR 0xE4,
     CHR 0xB8, CHR 0xBA, CHR 0xE7, CHR 0xA9, CHR 0xBA]"

definition msg_PROJECT_MISSING_NAME :: string where
  "msg_PROJECT_MISSING_NAME =
     [CHR 0xE9, CHR 0xA1, CHR 0xB9, CHR 0xE7, CHR 0x9B, CHR 0xAE, CHR 0xE5, CHR 0x90,
     CHR 0x8D, CHR 0xE7, CHR 0xA7, CHR 0xB0, CHR 0xE4, CHR 0xB8, CHR 0x8D,
     CHR 0xE8, CHR 0x83, CHR 0xBD, CHR 0xE4, CHR 0xB8, CHR 0xBA, CHR 0xE7,
     CHR 0xA9, CHR 0xBA]"

definition msg_CANVAS_MISSING_ID :: string where
  "msg_CANVAS_MISSING_ID =
     [CHR 0xE7, CHR 0x94, CHR 0xBB, CHR 0xE5, CHR 0xB8, CHR 0x83, CHR 0x49, CHR 0x44,
     CHR 0xE4, CHR 0xB8, CHR 0x8D, CHR 0xE8, CHR 0x83, CHR 0xBD, CHR 0xE4,
     CHR 0xB8, CHR 0xBA, CHR 0xE7, CHR 0xA9, CHR 0xBA]"

definition msg_CANVAS_INVALID_WIDTH :: string where
  "msg_CANVAS_INVALID_WIDTH =
     [CHR 0xE7, CHR 0x94, CHR 0xBB, CHR 0xE5, CHR 0xB8, CHR 0x83, CHR 0xE5, CHR 0xAE,
     CHR 0xBD, CHR 0xE5, CHR 0xBA, CHR 0xA6, CHR 0xE5, CHR 0xBF, CHR 0x85,
     CHR 0xE9, CHR 0xA1, CHR 0xBB, CHR 0xE5, CHR 0xA4, CHR 0xA7, CHR 0xE4,
     CHR 0xBA, CHR 0x8E, CHR 0x30]"

definition msg_CANVAS_INVALID_HEIGHT :: string where
  "msg_CANVAS_INVALID_HEIGHT =
     [CHR 0xE7, CHR 0x94, CHR 0xBB, CHR 0xE5, CHR 0xB8, CHR 0x83, CHR 0xE9, CHR 0xAB,
     CHR 0x98, CHR 0xE5, CHR 0xBA, CHR 0xA6, CHR 0xE5, CHR 0xBF, CHR 0x85,
     CHR 0xE9, CHR 0xA1, CHR 0xBB, CHR 0xE5, CHR 0xA4, CHR 0xA7, CHR 0xE4,
     CHR 0xBA, CHR 0x8E, CHR 0x30]"

definition mkError :: "string \<Rightarrow> string \<Rightarrow> string \<Rightarrow> ValidationError" where
  "mkError f m c = \<lparr>ve_field = f, ve_message = m, ve_value = None, ve_code = c\<rparr>"

text \<open>
  \<open>validateProject(project: any)\<close> on a value of type \<open>ProjectConfig\<close>. The fields
  \<open>canvas\<close> and \<open>elements\<close> of such a value are objects, so the branch
  \<open>!project.canvas\<close> (error \<open>PROJECT_MISSING_CANVAS\<close>) and the branch
  \<open>!project.elements\<close> (warning \<open>PROJECT_EMPTY_ELEMENTS\<close>) are not taken and the
  \<open>else\<close> branch with the canvas checks always runs. A string is falsy when empty;
  \<open>!w || w <= 0\<close> on a number reads \<open>w = 0 \<or> w \<le> 0\<close>.
\<close>

definition schemaValidator_validateProject :: "ProjectConfig \<Rightarrow> ValidationResult" where
  "schemaValidator_validateProject project =
     (let errors0 = [];
          errors1 = (if pc_id project = [] then
                       errors0 @ [mkError ''id'' msg_PROJECT_MISSING_ID ''PROJECT_MISSING_ID'']
                     else errors0);
          errors2 = (if pc_name project = [] then
                       errors1 @ [mkError ''name'' msg_PROJECT_MISSING_NAME ''PROJECT_MISSING_NAME'']
                     else errors1);
          canvas = pc_canvas project;
          errors3 = (if cc_id canvas = [] then
                       errors2 @ [mkError ''canvas.id'' msg_CANVAS_MISSING_ID ''CANVAS_MISSING_ID'']
                     else errors2);
          errors4 = (if cc_width canvas = 0 \<or> cc_width canvas \<le> 0 then
                       errors3 @ [mkError ''canvas.width'' msg_CANVAS_INVALID_WIDTH
                                    ''CANVAS_INVALID_WIDTH'']
                     else errors3);
          errors5 = (if cc_height canvas = 0 \<or> cc_height canvas \<le> 0 then
                       errors4 @ [mkError ''canvas.height'' msg_CANVAS_INVALID_HEIGHT
                                    ''CANVAS_INVALID_HEIGHT'']
                     else errors4);
          warnings = []
      in \<lparr>vr_valid = (length errors5 = 0), vr_errors = errors5, vr_warnings = warnings\<rparr>)"

section \<open>SchemaValidator.validateElement (core/schema/validator.ts)\<close>

definition msg_ELEMENT_MISSING_ID :: string where
  "msg_ELEMENT_MISSING_ID =
     [CHR 0xE5, CHR 0x85, CHR 0x83, CHR 0xE7, CHR 0xB4, CHR 0xA0, CHR 0x49, CHR 0x44,
     CHR 0xE4, CHR 0xB8, CHR 0x8D, CHR 0xE8, CHR 0x83, CHR 0xBD, CHR 0xE4, CHR 0xB8,
     CHR 0xBA, CHR 0xE7, CHR 0xA9, CHR 0xBA]"

definition msg_ELEMENT_MISSING_TYPE :: string where
  "msg_ELEMENT_MISSING_TYPE =
     [CHR 0xE5, CHR 0x85, CHR 0x83, CHR 0xE7, CHR 0xB4, CHR 0xA0, CHR 0xE7, CHR 0xB1,
     CHR 0xBB, CHR 0xE5, CHR 0x9E, CHR 0x8B, CHR 0xE4, CHR 0xB8, CHR 0x8D, CHR 0xE8,
     CHR 0x83, CHR 0xBD, CHR 0xE4, CHR 0xB8, CHR 0xBA, CHR 0xE7, CHR 0xA9, CHR 0xBA]"

definition msg_ELEMENT_MISSING_NAME :: string where
  "msg_ELEMENT_MISSING_NAME =
     [CHR 0xE5, CHR 0xBB, CHR 0xBA, CHR 0xE8, CHR 0xAE, CHR 0xAE, CHR 0xE4, CHR 0xB8,
     CHR 0xBA, CHR 0xE5, CHR 0x85, CHR 0x83, CHR 0xE7, CHR 0xB4, CHR 0xA0, CHR 0xE6,
     CHR 0x8C, CHR 0x87, CHR 0xE5, CHR 0xAE, CHR 0x9A, CHR 0xE5, CHR 0x90, CHR 0x8D,
     CHR 0xE7, CHR 0xA7, CHR 0xB0]"

definition msg_PROPERTY_MISSING_prefix :: string where
  "msg_PROPERTY_MISSING_prefix =
     [CHR 0xE5, CHR 0xBF, CHR 0x85, CHR 0xE9, CHR 0x9C, CHR 0x80, CHR 0xE5, CHR 0xB1,
     CHR 0x9E, CHR 0xE6, CHR 0x80, CHR 0xA7, CHR 0x20]"

definition msg_PROPERTY_MISSING_suffix :: string where
  "msg_PROPERTY_MISSING_suffix =
     [CHR 0x20, CHR 0xE4, CHR 0xB8, CHR 0x8D, CHR 0xE8, CHR 0x83, CHR 0xBD, CHR 0xE4,
     CHR 0xB8, CHR 0xBA, CHR 0xE7, CHR 0xA9, CHR 0xBA]"

definition msg_CHILDREN_VALIDATION_REQUIRED :: string where
  "msg_CHILDREN_VALIDATION_REQUIRED =
     [CHR 0xE5, CHR 0xAD, CHR 0x90, CHR 0xE5, CHR 0x85, CHR 0x83, CHR 0xE7, CHR 0xB4,
     CHR 0xA0, CHR 0xE9, CHR 0xAA, CHR 0x8C, CHR 0xE8, CHR 0xAF, CHR 0x81, CHR 0xE9,
     CHR 0x9C, CHR 0x80, CHR 0xE8, CHR 0xA6, CHR 0x81, CHR 0xE5, CHR 0x8D, CHR 0x95,
     CHR 0xE7, CHR 0x8B, CHR 0xAC, CHR 0xE8, CHR 0xBF, CHR 0x9B, CHR 0xE8, CHR 0xA1,
     CHR 0x8C]"

definition msg_STYLE_INVALID_FONT_SIZE :: string where
  "msg_STYLE_INVALID_FONT_SIZE =
     [CHR 0xE5, CHR 0xAD, CHR 0x97, CHR 0xE4, CHR 0xBD, CHR 0x93, CHR 0xE5, CHR 0xA4,
     CHR 0xA7, CHR 0xE5, CHR 0xB0, CHR 0x8F, CHR 0xE5, CHR 0xBF, CHR 0x85, CHR 0xE9,
     CHR 0xA1, CHR 0xBB, CHR 0xE6, CHR 0x98, CHR 0xAF, CHR 0xE6, CHR 0xAD, CHR 0xA3,
     CHR 0xE6, CHR 0x95, CHR 0xB0, CHR 0xE6, CHR 0x88, CHR 0x96, CHR 0xE6, CHR 0x9C,
     CHR 0x89, CHR 0xE6, CHR 0x95, CHR 0x88, CHR 0xE7, CHR 0x9A, CHR 0x84, CHR 0x43,
     CHR 0x53, CHR 0x53, CHR 0xE5, CHR 0x80, CHR 0xBC]"

definition msg_STYLE_INVALID_WIDTH :: string where
  "msg_STYLE_INVALID_WIDTH =
     [CHR 0xE5, CHR 0xAE, CHR 0xBD, CHR 0xE5, CHR 0xBA, CHR 0xA6, CHR 0xE5, CHR 0xBF,
     CHR 0x85, CHR 0xE9, CHR 0xA1, CHR 0xBB, CHR 0xE6, CHR 0x98, CHR 0xAF, CHR 0xE6,
     CHR 0x9C, CHR 0x89, CHR 0xE6, CHR 0x95, CHR 0x88, CHR 0xE7, CHR 0x9A, CHR 0x84,
     CHR 0x43, CHR 0x53, CHR 0x53, CHR 0xE5, CHR 0x80, CHR 0xBC]"

definition msg_STYLE_INVALID_HEIGHT :: string where
  "msg_STYLE_INVALID_HEIGHT =
     [CHR 0xE9, CHR 0xAB, CHR 0x98, CHR 0xE5, CHR 0xBA, CHR 0xA6, CHR 0xE5, CHR 0xBF,
     CHR 0x85, CHR 0xE9, CHR 0xA1, CHR 0xBB, CHR 0xE6, CHR 0x98, CHR 0xAF, CHR 0xE6,
     CHR 0x9C, CHR 0x89, CHR 0xE6, CHR 0x95, CHR 0x88, CHR 0xE7, CHR 0x9A, CHR 0x84,
     CHR 0x43, CHR 0x53, CHR 0x53, CHR 0xE5, CHR 0x80, CHR 0xBC]"

definition msg_STYLE_INVALID_COLOR :: string where
  "msg_STYLE_INVALID_COLOR =
     [CHR 0xE9, CHR 0xA2, CHR 0x9C, CHR 0xE8, CHR 0x89, CHR 0xB2, CHR 0xE5, CHR 0xBF,
     CHR 0x85, CHR 0xE9, CHR 0xA1, CHR 0xBB, CHR 0xE6, CHR 0x98, CHR 0xAF, CHR 0xE6,
     CHR 0x9C, CHR 0x89, CHR 0xE6, CHR 0x95, CHR 0x88, CHR 0xE7, CHR 0x9A, CHR 0x84,
     CHR 0x43, CHR 0x53, CHR 0x53, CHR 0xE9, CHR 0xA2, CHR 0x9C, CHR 0xE8, CHR 0x89,
     CHR 0xB2, CHR 0xE5, CHR 0x80, CHR 0xBC]"

text \<open>
  The regular expressions of the style rules, each as the test it makes on a string value:
  \<open>/^\d+(px|rem|em|%)$/\<close>, \<open>/^\d+(px|rem|em|%|vw|vh)$/\<close>, \<open>/^#([0-9a-f]{3}){1,2}$/i\<close>, and
  the two for \<open>rgb(...)\<close> and \<open>rgba(...)\<close>. They are parameters of the validator: every
  statement below holds whatever the tests answer.
\<close>

record Patterns =
  pt_fontSize :: "jsvalue \<Rightarrow> bool"
  pt_length :: "jsvalue \<Rightarrow> bool"
  pt_hexColor :: "jsvalue \<Rightarrow> bool"
  pt_rgb :: "jsvalue \<Rightarrow> bool"
  pt_rgba :: "jsvalue \<Rightarrow> bool"

record StyleValidationRule =
  svr_property :: string
  svr_validator :: "jsvalue \<Rightarrow> bool"
  svr_message :: string
  svr_code :: string
  svr_isWarning :: "bool option"

record ElementValidationRule =
  evr_type :: string
  evr_requiredProps :: "string list option"
  evr_styleRules :: "StyleValidationRule list option"

text \<open>\<open>typeof value === 'string'\<close>: a string, or the string \<open>JSON.stringify\<close> returns.\<close>

definition isString :: "jsvalue \<Rightarrow> bool" where
  "isString v = (case v of JStr s \<Rightarrow> True | JJson w \<Rightarrow> True | _ \<Rightarrow> False)"

definition fontSizeValidator :: "Patterns \<Rightarrow> jsvalue \<Rightarrow> bool" where
  "fontSizeValidator pt v =
     (case v of
        JNum n \<Rightarrow> n > 0
      | _ \<Rightarrow> if isString v then pt_fontSize pt v else False)"

definition lengthValidator :: "Patterns \<Rightarrow> jsvalue \<Rightarrow> bool" where
  "lengthValidator pt v =
     (if v = JUndefined \<or> v = JNull then True
      else (case v of
              JNum n \<Rightarrow> n \<ge> 0
            | _ \<Rightarrow> if isString v then pt_length pt v \<or> v = JStr ''auto'' else False))"

definition colorValidator :: "Patterns \<Rightarrow> jsvalue \<Rightarrow> bool" where
  "colorValidator pt v =
     (if v = JUndefined \<or> v = JNull then True
      else if \<not> isString v then False
      else pt_hexColor pt v \<or> pt_rgb pt v \<or> pt_rgba pt v)"

definition elementRules :: "Patterns \<Rightarrow> ElementValidationRule list" where
  "elementRules pt =
     [\<lparr>evr_type = ''text'', evr_requiredProps = Some [''content''],
       evr_styleRules = Some
         [\<lparr>svr_property = ''fontSize'', svr_validator = fontSizeValidator pt,
           svr_message = msg_STYLE_INVALID_FONT_SIZE, svr_code = ''STYLE_INVALID_FONT_SIZE'',
           svr_isWarning = None\<rparr>]\<rparr>,
      \<lparr>evr_type = ''image'', evr_requiredProps = Some [''src''],
       evr_styleRules = Some
         [\<lparr>svr_property = ''width'', svr_validator = lengthValidator pt,
           svr_message = msg_STYLE_INVALID_WIDTH, svr_code = ''STYLE_INVALID_WIDTH'',
           svr_isWarning = None\<rparr>]\<rparr>]"

definition commonStyleRules :: "Patterns \<Rightarrow> StyleValidationRule list" where
  "commonStyleRules pt =
     [\<lparr>svr_property = ''width'', svr_validator = lengthValidator pt,
       svr_message = msg_STYLE_INVALID_WIDTH, svr_code = ''STYLE_INVALID_WIDTH'',
       svr_isWarning = Some True\<rparr>,
      \<lparr>svr_property = ''height'', svr_validator = lengthValidator pt,
       svr_message = msg_STYLE_INVALID_HEIGHT, svr_code = ''STYLE_INVALID_HEIGHT'',
       svr_isWarning = Some True\<rparr>,
      \<lparr>svr_property = ''color'', svr_validator = colorValidator pt,
       svr_message = msg_STYLE_INVALID_COLOR, svr_code = ''STYLE_INVALID_COLOR'',
       svr_isWarning = Some True\<rparr>]"

text \<open>
  What \<open>validateElement(element)\<close> reads from its argument: \<open>id\<close>, \<open>type\<close>, \<open>name\<close>,
  \<open>props\<close>, \<open>style\<close> and \<open>childrenIds\<close>. On element data these are its fields. On a
  member inherited from \<open>Object.prototype\<close> all of them are \<open>undefined\<close>, except the
  \<open>name\<close> of a function: \<open>Object\<close> for \<open>constructor\<close>, and the key itself for the other
  methods (\<open>__proto__\<close> yields the object \<open>Object.prototype\<close>, which has no \<open>name\<close>).
\<close>

record ElementView =
  ev_id :: jsvalue
  ev_type :: jsvalue
  ev_name :: jsvalue
  ev_props :: "(string \<times> jsvalue) list option"
  ev_style :: "ElementStyle option"
  ev_childrenIds :: "ElementId list option"

definition viewOfElement :: "ElementData \<Rightarrow> ElementView" where
  "viewOfElement element =
     \<lparr>ev_id = JStr (ed_id element), ev_type = JStr (ed_type element),
      ev_name = JStr (ed_name element), ev_props = ed_props element,
      ev_style = Some (ed_style element), ev_childrenIds = ed_childrenIds element\<rparr>"

definition viewOfInherited :: "string \<Rightarrow> ElementView" where
  "viewOfInherited key =
     \<lparr>ev_id = JUndefined, ev_type = JUndefined,
      ev_name = (if key = ''__proto__'' then JUndefined
                 else if key = ''constructor'' then JStr ''Object''
                 else JStr key),
      ev_props = None, ev_style = None, ev_childrenIds = None\<rparr>"

text \<open>
  \<open>validateStyle\<close> runs over the rules and appends to the two lists. Reading
  \<open>style[rule.property]\<close> throws a \<open>TypeError\<close> when \<open>style\<close> is \<open>undefined\<close>.
\<close>

fun validateStyle ::
  "ElementStyle option \<Rightarrow> StyleValidationRule list
     \<Rightarrow> ValidationError list \<times> ValidationError list
     \<Rightarrow> JsError + ValidationError list \<times> ValidationError list" where
  "validateStyle style [] (errors, warnings) = Inr (errors, warnings)"
| "validateStyle style (rule # rules) (errors, warnings) =
     (case style of
        None \<Rightarrow> Inl (TypeError ''Cannot read properties of undefined'')
      | Some st \<Rightarrow>
          (let v = propOf (Some st) (svr_property rule) in
           if v \<noteq> JUndefined \<and> v \<noteq> JNull then
             (let isValid = svr_validator rule v in
              if \<not> isValid then
                (let error = \<lparr>ve_field = ''style.'' @ svr_property rule,
                              ve_message = svr_message rule, ve_value = Some v,
                              ve_code = svr_code rule\<rparr>
                 in if svr_isWarning rule = Some True then
                      validateStyle style rules (errors, warnings @ [error])
                    else validateStyle style rules (errors @ [error], warnings))
              else validateStyle style rules (errors, warnings))
           else validateStyle style rules (errors, warnings)))"

definition requiredPropsErrors ::
  "(string \<times> jsvalue) list option \<Rightarrow> string list \<Rightarrow> ValidationError list
     \<Rightarrow> ValidationError list" where
  "requiredPropsErrors props required errors =
     foldl (\<lambda>errs prop.
              if \<not> truthy (propOf props prop) then
                errs @ [mkError (''props.'' @ prop)
                          (msg_PROPERTY_MISSING_prefix @ prop @ msg_PROPERTY_MISSING_suffix)
                          ''PROPERTY_MISSING'']
              else errs)
       errors required"

definition schemaValidator_validateElement ::
  "Patterns \<Rightarrow> ElementView \<Rightarrow> JsError + ValidationResult" where
  "schemaValidator_validateElement pt element =
     (let errors0 = [];
          warnings0 = [];
          errors1 = (if \<not> truthy (ev_id element) then
                       errors0 @ [mkError ''id'' msg_ELEMENT_MISSING_ID ''ELEMENT_MISSING_ID'']
                     else errors0);
          errors2 = (if \<not> truthy (ev_type element) then
                       errors1 @ [mkError ''type'' msg_ELEMENT_MISSING_TYPE ''ELEMENT_MISSING_TYPE'']
                     else errors1);
          warnings1 = (if \<not> truthy (ev_name element) then
                         warnings0 @ [mkError ''name'' msg_ELEMENT_MISSING_NAME
                                        ''ELEMENT_MISSING_NAME'']
                       else warnings0);
          elementRule = find (\<lambda>rule. JStr (evr_type rule) = ev_type element) (elementRules pt);
          ruleChecks =
            (case elementRule of
               None \<Rightarrow> Inr (errors2, warnings1)
             | Some rule \<Rightarrow>
                 (let errors3 = (case evr_requiredProps rule of
                                   None \<Rightarrow> errors2
                                 | Some required \<Rightarrow>
                                     requiredPropsErrors (ev_props element) required errors2)
                  in case evr_styleRules rule of
                       None \<Rightarrow> Inr (errors3, warnings1)
                     | Some rules \<Rightarrow> validateStyle (ev_style element) rules (errors3, warnings1)))
      in case ruleChecks of
           Inl e \<Rightarrow> Inl e
         | Inr checked \<Rightarrow>
             (case validateStyle (ev_style element) (commonStyleRules pt) checked of
                Inl e \<Rightarrow> Inl e
              | Inr (errors5, warnings3) \<Rightarrow>
                  (let warnings4 =
                         (case ev_childrenIds element of
                            None \<Rightarrow> warnings3
                          | Some ids \<Rightarrow>
                              if length ids > 0 then
                                warnings3 @ [mkError ''childrenIds''
                                               msg_CHILDREN_VALIDATION_REQUIRED
                                               ''CHILDREN_VALIDATION_REQUIRED'']
                              else warnings3)
                   in Inr \<lparr>vr_valid = (length errors5 = 0), vr_errors = errors5,
                           vr_warnings = warnings4\<rparr>)))"

section \<open>SchemaTransformer.simpleToProject\<close>

text \<open>
  The argument \<open>simple: any\<close> of \<open>simpleToProject\<close> is modelled as \<open>undefined\<close>,
  \<open>null\<close>, or an object whose fields, where present, have the types \<open>ProjectConfig\<close>
  gives them. Reading a property of \<open>undefined\<close> or \<open>null\<close> throws a \<open>TypeError\<close>;
  a number, string or boolean has none of the fields read and behaves like the empty
  object. \<open>a || b\<close> takes \<open>b\<close> when \<open>a\<close> is absent, the empty string or the number 0.
\<close>

record SimpleCanvas =
  sc_id :: "string option"
  sc_name :: "string option"
  sc_width :: "real option"
  sc_height :: "real option"
  sc_backgroundColor :: "string option"
  sc_grid :: "CanvasGrid option"
  sc_zoom :: "CanvasZoom option"
  sc_elements :: "ElementId list option"

record SimpleProject =
  sp_id :: "string option"
  sp_name :: "string option"
  sp_description :: "string option"
  sp_createdAt :: "real option"
  sp_updatedAt :: "real option"
  sp_canvas :: "SimpleCanvas option"
  sp_elements :: "(ElementId \<rightharpoonup> ElementData) option"
  sp_version :: "string option"

datatype ImportData = DataUndefined | DataNull | DataObject SimpleProject

text \<open>
  The clock and the random source: \<open>clk_now\<close> is the value of \<open>Date.now()\<close> bound to
  \<open>now\<close>, \<open>clk_freshProjectId\<close> the generated string
  \<open>project_<Date.now()>_<random>\<close>, \<open>clk_historyTimestamp\<close> the value of
  \<open>Date.now()\<close> read by \<open>addHistory\<close>.
\<close>

record Clock =
  clk_now :: real
  clk_freshProjectId :: string
  clk_historyTimestamp :: real

definition orString :: "string option \<Rightarrow> string \<Rightarrow> string" where
  "orString a b = (case a of None \<Rightarrow> b | Some s \<Rightarrow> if s = [] then b else s)"

definition orNumber :: "real option \<Rightarrow> real \<Rightarrow> real" where
  "orNumber a b = (case a of None \<Rightarrow> b | Some n \<Rightarrow> if n = 0 then b else n)"

definition orObject :: "'a option \<Rightarrow> 'a \<Rightarrow> 'a" where
  "orObject a b = (case a of None \<Rightarrow> b | Some v \<Rightarrow> v)"

definition optChain :: "'a option \<Rightarrow> ('a \<Rightarrow> 'b option) \<Rightarrow> 'b option" where
  "optChain obj field = (case obj of None \<Rightarrow> None | Some v \<Rightarrow> field v)"

definition defaultProjectName :: string where
  "defaultProjectName =
     [CHR 0xE6, CHR 0x9C, CHR 0xAA, CHR 0xE5, CHR 0x91, CHR 0xBD, CHR 0xE5, CHR 0x90,
     CHR 0x8D, CHR 0xE9, CHR 0xA1, CHR 0xB9, CHR 0xE7, CHR 0x9B, CHR 0xAE]"

definition defaultCanvasName :: string where
  "defaultCanvasName = [CHR 0xE7, CHR 0x94, CHR 0xBB, CHR 0xE5, CHR 0xB8, CHR 0x83]"

definition simpleToProject :: "Clock \<Rightarrow> ImportData \<Rightarrow> JsError + ProjectConfig" where
  "simpleToProject clock simple =
     (case simple of
        DataUndefined \<Rightarrow> Inl (TypeError ''Cannot read properties of undefined'')
      | DataNull \<Rightarrow> Inl (TypeError ''Cannot read properties of null'')
      | DataObject s \<Rightarrow>
          (let now = clk_now clock in
           Inr \<lparr>pc_id = orString (sp_id s) (clk_freshProjectId clock),
                pc_name = orString (sp_name s) defaultProjectName,
                pc_description = sp_description s,
                pc_createdAt = orNumber (sp_createdAt s) now,
                pc_updatedAt = orNumber (sp_updatedAt s) now,
                pc_canvas =
                  \<lparr>cc_id = orString (optChain (sp_canvas s) sc_id) ''canvas'',
                   cc_name = orString (optChain (sp_canvas s) sc_name) defaultCanvasName,
                   cc_width = orNumber (optChain (sp_canvas s) sc_width) 800,
                   cc_height = orNumber (optChain (sp_canvas s) sc_height) 600,
                   cc_backgroundColor =
                     orString (optChain (sp_canvas s) sc_backgroundColor) ''#ffffff'',
                   cc_grid = Some (orObject (optChain (sp_canvas s) sc_grid)
                     \<lparr>cg_enabled = True, cg_size = 20, cg_color = ''#e8e8e8''\<rparr>),
                   cc_zoom = Some (orObject (optChain (sp_canvas s) sc_zoom)
                     \<lparr>cz_current = 1, cz_min = 1 / 10, cz_max = 5, cz_step = 1 / 10\<rparr>),
                   cc_elements = orObject (optChain (sp_canvas s) sc_elements) []\<rparr>,
                pc_elements = orObject (sp_elements s) Map.empty,
                pc_version = orString (sp_version s) ''1.0.0''\<rparr>))"

section \<open>The element store (store/slices/element.store.ts)\<close>

datatype HistoryData = HProject ProjectConfig | HValue jsvalue

record HistoryEntry =
  he_type :: string
  he_data :: HistoryData
  he_timestamp :: real

record ElementStoreState =
  currentProject :: "ProjectConfig option"
  elements :: "ElementId \<rightharpoonup> ElementData"
  rootElementId :: "ElementId option"
  selectedElementId :: "ElementId option"
  draggingElementId :: "ElementId option"
  hoveredElementId :: "ElementId option"
  history :: "HistoryEntry list"
  historyIndex :: int

text \<open>
  \<open>Array.prototype.slice(start, end)\<close>: a negative index counts from the end of the
  array, and both indices are clipped to the array.
\<close>

definition js_slice :: "'a list \<Rightarrow> int \<Rightarrow> int \<Rightarrow> 'a list" where
  "js_slice xs start end =
     (let len = int (length xs);
          k = (if start < 0 then max (len + start) 0 else min start len);
          final = (if end < 0 then max (len + end) 0 else min end len)
      in take (nat (final - k)) (drop (nat k) xs))"

definition MAX_HISTORY :: nat where
  "MAX_HISTORY = 100"

definition addHistory ::
  "string \<Rightarrow> HistoryData \<Rightarrow> real \<Rightarrow> ElementStoreState \<Rightarrow> ElementStoreState" where
  "addHistory type data timestamp draft =
     (let h1 = js_slice (history draft) 0 (historyIndex draft + 1);
          h2 = h1 @ [\<lparr>he_type = type, he_data = data, he_timestamp = timestamp\<rparr>];
          draft1 = draft\<lparr>history := h2, historyIndex := int (length h2) - 1\<rparr>
      in if length (history draft1) > MAX_HISTORY then
           (let h3 = js_slice (history draft1) (- int MAX_HISTORY) (int (length (history draft1)))
            in draft1\<lparr>history := h3, historyIndex := int (length h3) - 1\<rparr>)
         else draft1)"

text \<open>
  \<open>undo\<close>, \<open>redo\<close> and \<open>clearHistory\<close> move or reset the cursor (the output of
  \<open>console.log\<close> is left out).
\<close>

definition undo :: "ElementStoreState \<Rightarrow> ElementStoreState" where
  "undo state =
     (if historyIndex state < 0 then state
      else state\<lparr>historyIndex := historyIndex state - 1\<rparr>)"

definition redo :: "ElementStoreState \<Rightarrow> ElementStoreState" where
  "redo state =
     (if historyIndex state \<ge> int (length (history state)) - 1 then state
      else state\<lparr>historyIndex := historyIndex state + 1\<rparr>)"

definition clearHistory :: "ElementStoreState \<Rightarrow> ElementStoreState" where
  "clearHistory state = state\<lparr>history := [], historyIndex := - 1\<rparr>"

text \<open>The initial state of the element store.\<close>

definition initialElementStore :: ElementStoreState where
  "initialElementStore =
     \<lparr>currentProject = None, elements = Map.empty, rootElementId = None,
      selectedElementId = None, draggingElementId = None, hoveredElementId = None,
      history = [], historyIndex = - 1\<rparr>"

text \<open>
  \<open>importProject\<close> returns the messages written with \<open>console.error\<close> and the store.
  The \<open>try\<close> block covers conversion and validation; a thrown error reaches the
  \<open>catch\<close> clause before \<open>set\<close> has been called.
\<close>

definition importProject ::
  "Clock \<Rightarrow> ImportData \<Rightarrow> ElementStoreState \<Rightarrow> string list \<times> ElementStoreState" where
  "importProject clock data st =
     (case simpleToProject clock data of
        Inl error \<Rightarrow> ([''Failed to import project:''], st)
      | Inr project \<Rightarrow>
          (let result = schemaValidator_validateProject project in
           if \<not> vr_valid result then ([''Invalid project data:''], st)
           else
             ([], addHistory ''importProject'' (HProject project) (clk_historyTimestamp clock)
                    (st\<lparr>currentProject := Some project,
                        elements := pc_elements project,
                        rootElementId := Some ''canvas'',
                        selectedElementId := None,
                        draggingElementId := None,
                        hoveredElementId := None,
                        history := [],
                        historyIndex := - 1\<rparr>))))"

text \<open>
  \<open>getElementTree\<close>: \<open>rootId || get().rootElementId\<close> falls back to the store's root
  when the argument is absent or the empty string; \<open>buildTree\<close> is the inner recursive
  function, bounded like \<open>flatToTree\<close>.
\<close>

fun pushChildren ::
  "(ElementId \<Rightarrow> ElementNode option option) \<Rightarrow> ElementId list \<Rightarrow> ElementNode list
    \<Rightarrow> ElementNode list option" where
  "pushChildren buildTree [] acc = Some acc"
| "pushChildren buildTree (childId # rest) acc =
     (case buildTree childId of
        None \<Rightarrow> None
      | Some childNode \<Rightarrow>
          (case childNode of
             None \<Rightarrow> pushChildren buildTree rest acc
           | Some c \<Rightarrow> pushChildren buildTree rest (acc @ [c])))"

primrec buildTree ::
  "nat \<Rightarrow> (ElementId \<rightharpoonup> ElementData) \<Rightarrow> ElementId \<Rightarrow> ElementNode option option" where
  "buildTree 0 = (\<lambda>els elementId. None)"
| "buildTree (Suc n) = (\<lambda>els elementId.
     (case els elementId of
        None \<Rightarrow> Some None
      | Some element \<Rightarrow>
          (case ed_childrenIds element of
             None \<Rightarrow> Some (Some (Node element (Some [])))
           | Some ids \<Rightarrow>
               (case pushChildren (buildTree n els) ids [] of
                  None \<Rightarrow> None
                | Some cs \<Rightarrow> Some (Some (Node element (Some cs)))))))"

definition orId :: "ElementId option \<Rightarrow> ElementId option \<Rightarrow> ElementId option" where
  "orId a b = (case a of None \<Rightarrow> b | Some s \<Rightarrow> if s = [] then b else Some s)"

definition getElementTree ::
  "nat \<Rightarrow> ElementStoreState \<Rightarrow> ElementId option \<Rightarrow> ElementNode option option" where
  "getElementTree n st rootId =
     (case orId rootId (rootElementId st) of
        None \<Rightarrow> Some None
      | Some r \<Rightarrow> if r = [] then Some None else buildTree n (elements st) r)"

text \<open>
  \<open>validateElement\<close> and \<open>validateProject\<close> of the store. \<open>get().elements[id]\<close> reads a
  plain object: for an id that is no own key but the name of a property of
  \<open>Object.prototype\<close>, the value is the inherited member, which is truthy, and it is
  passed to the schema validator.
\<close>

definition validateElement ::
  "Patterns \<Rightarrow> ElementStoreState \<Rightarrow> ElementId \<Rightarrow> JsError + ValidationResult" where
  "validateElement pt st i =
     (case recordGet (elements st) i of
        Absent \<Rightarrow>
          Inr \<lparr>vr_valid = False,
               vr_errors = [\<lparr>ve_field = ''id'', ve_message = ''Element not found'',
                             ve_value = None, ve_code = ''ELEMENT_NOT_FOUND''\<rparr>],
               vr_warnings = []\<rparr>
      | Own element \<Rightarrow> schemaValidator_validateElement pt (viewOfElement element)
      | Inherited key \<Rightarrow> schemaValidator_validateElement pt (viewOfInherited key))"


section \<open>The canvas store (store/slices/canvas.store.ts)\<close>

record GridState =
  gs_enabled :: bool
  gs_size :: real
  gs_color :: string
  gs_snapToGrid :: bool

record RulerState =
  rs_enabled :: bool
  rs_color :: string
  rs_fontSize :: real

record GuideState =
  gd_enabled :: bool
  gd_color :: string
  gd_snapToGuides :: bool

datatype EditMode = EditSelect | EditDrag | EditDraw | EditText | EditShape

record Marquee =
  mq_x :: real
  mq_y :: real
  mq_width :: real
  mq_height :: real

record SelectionTool =
  sel_active :: bool
  sel_marquee :: "Marquee option"

datatype DrawingType = DrawRectangle | DrawCircle | DrawLine | DrawPath

record DrawingTool =
  dr_active :: bool
  dr_type :: DrawingType
  dr_color :: string
  dr_strokeWidth :: real

record ToolState =
  selection :: SelectionTool
  drawing :: DrawingTool

record CanvasStoreState =
  width :: real
  height :: real
  viewportX :: real
  viewportY :: real
  zoom :: number
  minZoom :: number
  maxZoom :: number
  zoomStep :: number
  grid :: GridState
  rulers :: RulerState
  guides :: GuideState
  editMode :: EditMode
  tools :: ToolState


definition zoomIn :: "CanvasStoreState \<Rightarrow> CanvasStoreState" where
  "zoomIn state =
     state\<lparr>zoom := Math_min (num_add (zoom state) (zoomStep state)) (maxZoom state)\<rparr>"

definition zoomOut :: "CanvasStoreState \<Rightarrow> CanvasStoreState" where
  "zoomOut state =
     state\<lparr>zoom := Math_max (num_sub (zoom state) (zoomStep state)) (minZoom state)\<rparr>"

definition setZoom :: "number \<Rightarrow> CanvasStoreState \<Rightarrow> CanvasStoreState" where
  "setZoom z state = state\<lparr>zoom := Math_max (minZoom state) (Math_min z (maxZoom state))\<rparr>"


text \<open>The zoom level lies between the bounds of the state: \<open>minZoom <= zoom <= maxZoom\<close>.\<close>

definition zoomInRange :: "CanvasStoreState \<Rightarrow> bool" where
  "zoomInRange s \<longleftrightarrow> num_le (minZoom s) (zoom s) \<and> num_le (zoom s) (maxZoom s)"

section \<open>The render engine (core/render/engine.tsx)\<close>

datatype RenderMode = ModeDom | ModeCanvas | ModeWorklet | ModeAuto

datatype Theme = ThemeLight | ThemeDark

text \<open>
  The optional field \<open>customRenderers\<close> of \<open>RenderContext\<close> is never read by the engine
  (it keeps its own map of custom renderers) and is left out.
\<close>

record RenderContext =
  rc_mode :: RenderMode
  rc_theme :: Theme
  rc_zoom :: real
  rc_isEditing :: bool
  rc_showGuides :: bool
  rc_showGrid :: bool

text \<open>
  The result of \<open>createElement(tag, props, children)\<close>: the third argument is absent, an
  array of rendered children, or (for text and button) a content value.
\<close>

datatype ReactChildren = NoChildren | ChildNodes "ReactElement list" | ChildContent jsvalue
and ReactElement =
  ReactElement (re_tag: string) (re_props: "(string \<times> jsvalue) list") (re_children: ReactChildren)

text \<open>A render function returns an element or \<open>null\<close>, or throws.\<close>

type_synonym RenderFunction =
  "ElementData \<Rightarrow> RenderContext \<Rightarrow> ReactElement list option \<Rightarrow> JsError + ReactElement option"

text \<open>
  What the engine reads from its surroundings: the worklet types for which
  \<open>workletLoader.isWorkletLoaded\<close> answers true, and the conversion of a value to a
  string inside a template literal (a string converts to itself).
\<close>

record Runtime =
  rt_loadedWorklets :: "string set"
  rt_toString :: "jsvalue \<Rightarrow> string"

definition templateString :: "Runtime \<Rightarrow> jsvalue \<Rightarrow> string" where
  "templateString rt v = (case v of JStr s \<Rightarrow> s | _ \<Rightarrow> rt_toString rt v)"

text \<open>
  \<open>ro_onError\<close> tells whether the option \<open>onError\<close> is set; its calls, and the console
  output, are recorded in the engine's log.
\<close>

record RenderOptions =
  ro_recursive :: "bool option"
  ro_maxDepth :: "number option"
  ro_onError :: bool

datatype LogEntry =
    ConsoleWarn string
  | ConsoleError string
  | OnErrorCall JsError ElementData

record RenderEngine =
  eng_context :: RenderContext
  eng_options :: RenderOptions
  eng_depth :: int
  eng_customRenderers :: "string \<rightharpoonup> RenderFunction"
  eng_log :: "LogEntry list"

definition orValue :: "jsvalue \<Rightarrow> jsvalue \<Rightarrow> jsvalue" where
  "orValue a b = (if truthy a then a else b)"

definition objectAssign ::
  "(string \<times> jsvalue) list \<Rightarrow> (string \<times> jsvalue) list \<Rightarrow> (string \<times> jsvalue) list" where
  "objectAssign target source = fold (\<lambda>(k, v) t. AList.update k v t) source target"

text \<open>
  The spread \<open>{...v}\<close> of a property value: the entries of an object; a string or an
  array spreads into its indexed entries; every other value spreads into nothing.
\<close>

definition spread :: "Runtime \<Rightarrow> jsvalue \<Rightarrow> (string \<times> jsvalue) list" where
  "spread rt v =
     (case v of
        JObj l \<Rightarrow> l
      | JStr s \<Rightarrow> map (\<lambda>(i, c). (rt_toString rt (JNum (real i)), JStr [c])) (enumerate 0 s)
      | JArr a \<Rightarrow> map (\<lambda>(i, x). (rt_toString rt (JNum (real i)), x)) (enumerate 0 a)
      | _ \<Rightarrow> [])"

fun joinWith :: "string \<Rightarrow> string list \<Rightarrow> string" where
  "joinWith sep [] = []"
| "joinWith sep [x] = x"
| "joinWith sep (x # y # ys) = x @ sep @ joinWith sep (y # ys)"

definition createElementClass :: "ElementData \<Rightarrow> RenderContext \<Rightarrow> string" where
  "createElementClass element context =
     (let classes = [''editor-element'', ''element-'' @ ed_type element];
          classes1 = (if selected (ed_state element) then classes @ [''element-selected'']
                      else classes);
          classes2 = (if hovered (ed_state element) then classes1 @ [''element-hovered'']
                      else classes1);
          classes3 = (if locked (ed_state element) then classes2 @ [''element-locked'']
                      else classes2);
          classes4 = (if active (ed_state element) then classes3 @ [''element-active'']
                      else classes3);
          classes5 = (if rc_isEditing context then classes4 @ [''element-editable'']
                      else classes4)
      in joinWith '' '' classes5)"

definition normalizeStyle :: "ElementStyle \<Rightarrow> (string \<times> jsvalue) list" where
  "normalizeStyle style = filter (\<lambda>(key, v). v \<noteq> JUndefined \<and> v \<noteq> JNull) style"

definition createElementStyle ::
  "Runtime \<Rightarrow> ElementData \<Rightarrow> RenderContext \<Rightarrow> (string \<times> jsvalue) list" where
  "createElementStyle rt element context =
     (let style = normalizeStyle (ed_style element);
          style1 = (if rc_zoom context \<noteq> 1 then
                      AList.update ''transformOrigin'' (JStr ''top left'')
                        (AList.update ''transform''
                           (JStr (''scale('' @ templateString rt (JNum (rc_zoom context)) @ '')''))
                           style)
                    else style);
          style2 = (if rc_showGuides context \<and> selected (ed_state element) then
                      AList.update ''outlineOffset'' (JStr ''2px'')
                        (AList.update ''outline'' (JStr ''2px dashed #1677ff'') style1)
                    else style1)
      in style2)"

definition createElementProps ::
  "Runtime \<Rightarrow> ElementData \<Rightarrow> RenderContext \<Rightarrow> (string \<times> jsvalue) list" where
  "createElementProps rt element context =
     (let props =
            [(''key'', JStr (ed_id element)),
             (''data-element-id'', JStr (ed_id element)),
             (''data-element-type'', JStr (ed_type element)),
             (''className'', JStr (createElementClass element context)),
             (''style'', JObj (createElementStyle rt element context)),
             (''onClick'', JHandler ''handleElementClick'' (ed_id element)),
             (''onMouseEnter'', JHandler ''handleElementMouseEnter'' (ed_id element)),
             (''onMouseLeave'', JHandler ''handleElementMouseLeave'' (ed_id element))];
          props1 = (case ed_props element of
                      None \<Rightarrow> props
                    | Some p \<Rightarrow> objectAssign props p);
          props2 = (case ed_data element of
                      None \<Rightarrow> props1
                    | Some d \<Rightarrow> fold (\<lambda>(key, v) ps. AList.update (''data-'' @ key) v ps) d props1)
      in props2)"

definition childArg :: "ReactElement list option \<Rightarrow> ReactChildren" where
  "childArg cs = (case cs of None \<Rightarrow> NoChildren | Some l \<Rightarrow> ChildNodes l)"

definition renderContainer ::
  "Runtime \<Rightarrow> ElementData \<Rightarrow> RenderContext \<Rightarrow> ReactElement list option \<Rightarrow> ReactElement" where
  "renderContainer rt element context cs =
     (let props = createElementProps rt element context
      in ReactElement ''div'' props (childArg cs))"

definition renderText ::
  "Runtime \<Rightarrow> ElementData \<Rightarrow> RenderContext \<Rightarrow> ReactElement list option \<Rightarrow> ReactElement" where
  "renderText rt element context cs =
     (let props = createElementProps rt element context;
          content = orValue (propOf (ed_props element) ''content'') (JStr []);
          props1 =
            (if (rc_mode context = ModeWorklet \<or> rc_mode context = ModeAuto)
                \<and> ''text-renderer'' \<in> rt_loadedWorklets rt then
               AList.update ''style''
                 (JObj (objectAssign (spread rt (propOf (Some props) ''style''))
                    [(''--text-content'', content),
                     (''--text-color'',
                        orValue (propOf (Some (ed_style element)) ''color'') (JStr ''currentColor'')),
                     (''--font-size'',
                        orValue (propOf (Some (ed_style element)) ''fontSize'') (JStr ''16px'')),
                     (''--font-family'',
                        orValue (propOf (Some (ed_style element)) ''fontFamily'') (JStr ''inherit'')),
                     (''--font-weight'',
                        orValue (propOf (Some (ed_style element)) ''fontWeight'') (JStr ''normal'')),
                     (''backgroundImage'', JStr ''paint(textRenderer)'')]))
                 props
             else props)
      in ReactElement ''span'' props1 (ChildContent content))"

definition renderImage ::
  "Runtime \<Rightarrow> ElementData \<Rightarrow> RenderContext \<Rightarrow> ReactElement list option \<Rightarrow> ReactElement" where
  "renderImage rt element context cs =
     (let props = createElementProps rt element context;
          props1 = AList.update ''src'' (orValue (propOf (ed_props element) ''src'') (JStr [])) props;
          props2 = AList.update ''alt'' (orValue (propOf (ed_props element) ''alt'') (JStr [])) props1
      in ReactElement ''img'' props2 NoChildren)"

definition renderButton ::
  "Runtime \<Rightarrow> ElementData \<Rightarrow> RenderContext \<Rightarrow> ReactElement list option \<Rightarrow> ReactElement" where
  "renderButton rt element context cs =
     (let props = createElementProps rt element context;
          text = orValue (propOf (ed_props element) ''text'') (JStr [])
      in ReactElement ''button'' props
           (case cs of None \<Rightarrow> ChildContent text | Some l \<Rightarrow> ChildNodes l))"

definition renderInput ::
  "Runtime \<Rightarrow> ElementData \<Rightarrow> RenderContext \<Rightarrow> ReactElement list option \<Rightarrow> ReactElement" where
  "renderInput rt element context cs =
     (let props = createElementProps rt element context;
          props1 = AList.update ''type''
                     (orValue (propOf (ed_props element) ''type'') (JStr ''text'')) props;
          props2 = AList.update ''placeholder''
                     (orValue (propOf (ed_props element) ''placeholder'') (JStr [])) props1;
          props3 = AList.update ''value''
                     (orValue (propOf (ed_props element) ''value'') (JStr [])) props2;
          props4 = AList.update ''disabled''
                     (orValue (propOf (ed_props element) ''disabled'') (JBool False)) props3
      in ReactElement ''input'' props4 NoChildren)"

definition renderRectangle ::
  "Runtime \<Rightarrow> ElementData \<Rightarrow> RenderContext \<Rightarrow> ReactElement list option \<Rightarrow> ReactElement" where
  "renderRectangle rt element context cs =
     (let props = createElementProps rt element context
      in ReactElement ''div'' props (childArg cs))"

definition renderCircle ::
  "Runtime \<Rightarrow> ElementData \<Rightarrow> RenderContext \<Rightarrow> ReactElement list option \<Rightarrow> ReactElement" where
  "renderCircle rt element context cs =
     (let props = createElementProps rt element context
      in ReactElement ''div'' props (childArg cs))"

definition renderFlex ::
  "Runtime \<Rightarrow> ElementData \<Rightarrow> RenderContext \<Rightarrow> ReactElement list option \<Rightarrow> ReactElement" where
  "renderFlex rt element context cs =
     (let props = createElementProps rt element context
      in ReactElement ''div'' props (childArg cs))"

definition renderGrid ::
  "Runtime \<Rightarrow> ElementData \<Rightarrow> RenderContext \<Rightarrow> ReactElement list option \<Rightarrow> ReactElement" where
  "renderGrid rt element context cs =
     (let props = createElementProps rt element context
      in ReactElement ''div'' props (childArg cs))"

definition renderCanvas ::
  "Runtime \<Rightarrow> ElementData \<Rightarrow> RenderContext \<Rightarrow> ReactElement list option \<Rightarrow> ReactElement" where
  "renderCanvas rt element context cs =
     (let props = createElementProps rt element context;
          props1 =
            (if (rc_mode context = ModeWorklet \<or> rc_mode context = ModeAuto)
                \<and> ''canvas-engine'' \<in> rt_loadedWorklets rt then
               AList.update ''style''
                 (JObj (objectAssign (spread rt (propOf (Some props) ''style''))
                    [(''--canvas-type'', JStr ''gradient''),
                     (''--canvas-data'',
                        JJson (JObj [(''type'', JStr ''linear''),
                                     (''colors'',
                                        JArr [JObj [(''color'', JStr ''#1677ff''), (''stop'', JStr ''0%'')],
                                              JObj [(''color'', JStr ''#52c41a''),
                                                    (''stop'', JStr ''100%'')]])])),
                     (''backgroundImage'', JStr ''paint(canvasEngine)'')]))
                 props
             else props)
      in ReactElement ''div'' props1 NoChildren)"

definition renderWorklet ::
  "Runtime \<Rightarrow> ElementData \<Rightarrow> RenderContext \<Rightarrow> ReactElement list option \<Rightarrow> ReactElement" where
  "renderWorklet rt element context cs =
     (let props = createElementProps rt element context;
          workletType = orValue (propOf (ed_props element) ''workletType'') (JStr ''text'');
          props1 =
            (if templateString rt workletType @ ''-renderer'' \<in> rt_loadedWorklets rt then
               AList.update ''style''
                 (JObj (objectAssign (spread rt (propOf (Some props) ''style''))
                    [(''--worklet-type'', workletType),
                     (''--worklet-data'',
                        JJson (orValue (propOf (ed_props element) ''workletData'') (JObj []))),
                     (''backgroundImage'',
                        JStr (''paint('' @ templateString rt workletType @ ''Renderer)''))]))
                 props
             else props)
      in ReactElement ''div'' props1 NoChildren)"

text \<open>
  The table \<open>renderers\<close> of \<open>getBuiltInRenderer\<close>, keyed by the values of
  \<open>ElementTypes\<close>, in the order of the source.
\<close>

definition renderers ::
  "(string \<times> (Runtime \<Rightarrow> ElementData \<Rightarrow> RenderContext \<Rightarrow> ReactElement list option
      \<Rightarrow> ReactElement)) list" where
  "renderers =
     [(''container'', renderContainer),
      (''text'', renderText),
      (''image'', renderImage),
      (''button'', renderButton),
      (''input'', renderInput),
      (''rectangle'', renderRectangle),
      (''circle'', renderCircle),
      (''flex'', renderFlex),
      (''grid'', renderGrid),
      (''canvas'', renderCanvas),
      (''worklet'', renderWorklet)]"

text \<open>
  \<open>getBuiltInRenderer\<close> reads \<open>renderers[type] || this.renderContainer.bind(this)\<close> on an
  object literal: an own entry of the table; or, for a type that is the name of a property
  of \<open>Object.prototype\<close>, the inherited member, which is truthy, so that the container
  renderer is not substituted; or the container renderer.
\<close>

datatype BuiltIn =
    BuiltInRenderer
      "Runtime \<Rightarrow> ElementData \<Rightarrow> RenderContext \<Rightarrow> ReactElement list option \<Rightarrow> ReactElement"
  | PrototypeMember string

definition getBuiltInRenderer :: "string \<Rightarrow> BuiltIn" where
  "getBuiltInRenderer type =
     (case recordGet (map_of renderers) type of
        Own r \<Rightarrow> BuiltInRenderer r
      | Inherited key \<Rightarrow> PrototypeMember key
      | Absent \<Rightarrow> BuiltInRenderer renderContainer)"

text \<open>
  What \<open>render\<close> returns: an element or \<open>null\<close>, as its type says; or what a member of
  \<open>Object.prototype\<close> returns when it is called in the place of a renderer.
\<close>

datatype RenderResult =
    Rendered ReactElement
  | RenderedNull
  | ReturnedElementData ElementData
  | ReturnedString string

text \<open>The tag of a result that is an element.\<close>

definition renderedTag :: "RenderResult \<Rightarrow> string option" where
  "renderedTag result = (case result of Rendered el \<Rightarrow> Some (re_tag el) | _ \<Rightarrow> None)"

text \<open>
  The call \<open>renderer(element, this.context, children)\<close>, which is a plain call, so that
  \<open>this\<close> is \<open>undefined\<close> in the callee. \<open>Object(element, ...)\<close> returns its first argument,
  an object; \<open>Object.prototype.toString\<close> returns \<open>[object Undefined]\<close>; the other methods
  of \<open>Object.prototype\<close> convert \<open>this\<close> to an object and throw a \<open>TypeError\<close>; the value
  of \<open>__proto__\<close> is an object, and calling it throws a \<open>TypeError\<close>.
\<close>

definition callRenderer ::
  "BuiltIn \<Rightarrow> Runtime \<Rightarrow> ElementData \<Rightarrow> RenderContext \<Rightarrow> ReactElement list option
     \<Rightarrow> JsError + RenderResult" where
  "callRenderer renderer rt element context cs =
     (case renderer of
        BuiltInRenderer r \<Rightarrow> Inr (Rendered (r rt element context cs))
      | PrototypeMember key \<Rightarrow>
          if key = ''constructor'' then Inr (ReturnedElementData element)
          else if key = ''toString'' then Inr (ReturnedString ''[object Undefined]'')
          else if key = ''__proto__'' then Inl (TypeError ''renderer is not a function'')
          else Inl (TypeError ''Cannot convert undefined or null to object''))"

text \<open>\<open>renderChildren\<close> returns \<open>undefined\<close> on both of its paths.\<close>

definition renderChildren :: "ElementData \<Rightarrow> ReactElement list option" where
  "renderChildren element =
     (case ed_childrenIds element of
        None \<Rightarrow> None
      | Some ids \<Rightarrow> if length ids = 0 then None else None)"

text \<open>\<open>this.options.maxDepth || 20\<close>: 20 for an absent option, for 0 and for \<open>NaN\<close>.\<close>

definition maxDepthOrDefault :: "RenderOptions \<Rightarrow> number" where
  "maxDepthOrDefault options =
     (case ro_maxDepth options of
        None \<Rightarrow> Finite 20
      | Some m \<Rightarrow> if m = NaN \<or> m = Finite 0 then Finite 20 else m)"

text \<open>
  \<open>render\<close> returns its result and the engine, whose \<open>depth\<close> and log it changes. The
  paths for a hidden element and for a custom renderer return without decrementing
  \<open>depth\<close>, as in the source; the \<open>catch\<close> clause handles what a renderer throws.
\<close>

definition renderCatch ::
  "JsError \<Rightarrow> ElementData \<Rightarrow> RenderEngine \<Rightarrow> RenderResult \<times> RenderEngine" where
  "renderCatch error element eng1 =
     (let eng2 = eng1\<lparr>eng_depth := eng_depth eng1 - 1\<rparr> in
      if ro_onError (eng_options eng2) then
        (RenderedNull, eng2\<lparr>eng_log := eng_log eng2 @ [OnErrorCall error element]\<rparr>)
      else
        (RenderedNull, eng2\<lparr>eng_log := eng_log eng2 @ [ConsoleError ''Render error:'']\<rparr>))"

definition render ::
  "Runtime \<Rightarrow> RenderEngine \<Rightarrow> ElementData \<Rightarrow> RenderResult \<times> RenderEngine" where
  "render rt eng element =
     (if num_le (maxDepthOrDefault (eng_options eng)) (Finite (real_of_int (eng_depth eng))) then
        (RenderedNull,
         eng\<lparr>eng_log := eng_log eng @ [ConsoleWarn ''Maximum render depth exceeded'']\<rparr>)
      else
        (let eng1 = eng\<lparr>eng_depth := eng_depth eng + 1\<rparr> in
         if hidden (ed_state element) then (RenderedNull, eng1)
         else
           (case eng_customRenderers eng1 (ed_type element) of
              Some customRenderer \<Rightarrow>
                (let cs = (if ro_recursive (eng_options eng1) = Some True
                           then renderChildren element else None)
                 in case customRenderer element (eng_context eng1) cs of
                      Inr result \<Rightarrow>
                        ((case result of None \<Rightarrow> RenderedNull | Some el \<Rightarrow> Rendered el), eng1)
                    | Inl error \<Rightarrow> renderCatch error element eng1)
            | None \<Rightarrow>
                (let renderer = getBuiltInRenderer (ed_type element);
                     cs = (if ro_recursive (eng_options eng1) = Some True
                           then renderChildren element else None)
                 in case callRenderer renderer rt element (eng_context eng1) cs of
                      Inr result \<Rightarrow> (result, eng1\<lparr>eng_depth := eng_depth eng1 - 1\<rparr>)
                    | Inl error \<Rightarrow> renderCatch error element eng1))))"





section \<open>The worklet loader (utils/worklet/loader.ts)\<close>

datatype WorkletType = TextRenderer | CanvasEngine | LayoutEngine | GradientEngine

fun typeName :: "WorkletType \<Rightarrow> string" where
  "typeName TextRenderer = ''text-renderer''"
| "typeName CanvasEngine = ''canvas-engine''"
| "typeName LayoutEngine = ''layout-engine''"
| "typeName GradientEngine = ''gradient-engine''"

record WorkletConfig =
  wc_type :: WorkletType
  wc_url :: string
  wc_dependencies :: "WorkletType list option"
  wc_isRequired :: "bool option"
  wc_retryCount :: "real option"

datatype WorkletStatus = Pending | Loading | Loaded | StatusError | Unsupported

datatype WorkletEvent =
    LoadStart WorkletType
  | Load WorkletType
  | ErrorEvent WorkletType JsError
  | Progress nat nat

text \<open>
  The registry, with the effects of \<open>loadWorklet\<close> recorded in order: the events
  passed to \<open>emitEvent\<close>, the URLs passed to \<open>CSS.paintWorklet.addModule\<close>, and the
  delays in milliseconds passed to \<open>setTimeout\<close>. Listeners are taken not to throw and
  not to call back into the registry; \<open>console.warn\<close> is not recorded.
\<close>

record WorkletRegistry =
  configs :: "WorkletType \<rightharpoonup> WorkletConfig"
  status :: "WorkletType \<rightharpoonup> WorkletStatus"
  loadedWorklets :: "WorkletType list"
  emitted :: "WorkletEvent list"
  addModuleCalls :: "string list"
  timeouts :: "int list"

text \<open>
  The browser: whether \<open>'paintWorklet' in CSS\<close> holds, and the outcome of each call of
  \<open>addModule\<close>, given the number of calls made before it and the URL: \<open>None\<close> when
  the promise resolves, \<open>Some e\<close> when it rejects with \<open>e\<close>.
\<close>

record Browser =
  br_supported :: bool
  br_addModule :: "nat \<Rightarrow> string \<Rightarrow> JsError option"

definition register :: "WorkletConfig \<Rightarrow> WorkletRegistry \<Rightarrow> WorkletRegistry" where
  "register config reg =
     reg\<lparr>configs := (configs reg)(wc_type config \<mapsto> config),
         status := (status reg)(wc_type config \<mapsto> Pending)\<rparr>"

definition defaultConfigs :: "WorkletConfig list" where
  "defaultConfigs =
     [\<lparr>wc_type = TextRenderer, wc_url = ''/worklets/text-renderer.js'',
       wc_dependencies = None, wc_isRequired = Some True, wc_retryCount = Some 3\<rparr>,
      \<lparr>wc_type = CanvasEngine, wc_url = ''/worklets/canvas-engine.js'',
       wc_dependencies = None, wc_isRequired = Some True, wc_retryCount = Some 3\<rparr>,
      \<lparr>wc_type = LayoutEngine, wc_url = ''/worklets/layout-engine.js'',
       wc_dependencies = None, wc_isRequired = Some False, wc_retryCount = Some 2\<rparr>,
      \<lparr>wc_type = GradientEngine, wc_url = ''/worklets/gradient-engine.js'',
       wc_dependencies = None, wc_isRequired = Some False, wc_retryCount = Some 2\<rparr>]"

definition initDefaultConfigs :: "WorkletRegistry \<Rightarrow> WorkletRegistry" where
  "initDefaultConfigs reg = fold register defaultConfigs reg"

definition newRegistry :: WorkletRegistry where
  "newRegistry =
     initDefaultConfigs
       \<lparr>configs = Map.empty, status = Map.empty, loadedWorklets = [], emitted = [],
        addModuleCalls = [], timeouts = []\<rparr>"

definition setAdd :: "'a \<Rightarrow> 'a list \<Rightarrow> 'a list" where
  "setAdd x xs = (if x \<in> set xs then xs else xs @ [x])"

text \<open>
  \<open>config.retryCount || 1\<close>. The field \<open>retryCount\<close> is a number; it is a real number
  here, so that fractional and negative counts are values of the model. A count \<open>NaN\<close>
  behaves like an absent one (\<open>||\<close> replaces both by 1) and a count \<open>-Infinity\<close> like a
  negative one (the loop is not entered); a count \<open>Infinity\<close>, with which a run of
  failing attempts does not end, is not represented.
\<close>

definition maxRetriesOf :: "WorkletConfig \<Rightarrow> real" where
  "maxRetriesOf config =
     (case wc_retryCount config of None \<Rightarrow> 1 | Some r \<Rightarrow> if r = 0 then 1 else r)"

text \<open>
  The retry loop \<open>for (let attempt = 1; attempt <= maxRetries; attempt++)\<close> of
  \<open>loadWorklet\<close>, from the value \<open>attempt\<close> on. The counter \<open>attempt\<close> is an integer,
  compared with the number \<open>maxRetries\<close> by \<open><=\<close> and \<open>===\<close>. The result is \<open>Inl e\<close> when
  the promise rejects with \<open>e\<close> and \<open>Inr ()\<close> when it resolves; leaving the loop resolves.
\<close>

function attemptLoop ::
  "Browser \<Rightarrow> WorkletType \<Rightarrow> WorkletConfig \<Rightarrow> real \<Rightarrow> int \<Rightarrow> WorkletRegistry
     \<Rightarrow> (JsError + unit) \<times> WorkletRegistry" where
  "attemptLoop br type config maxRetries attempt reg =
     (if real_of_int attempt \<le> maxRetries then
        (let reg1 = reg\<lparr>addModuleCalls := addModuleCalls reg @ [wc_url config]\<rparr> in
         case br_addModule br (length (addModuleCalls reg)) (wc_url config) of
           None \<Rightarrow>
             (Inr (),
              reg1\<lparr>status := (status reg1)(type \<mapsto> Loaded),
                   loadedWorklets := setAdd type (loadedWorklets reg1),
                   emitted := emitted reg1 @ [Load type]\<rparr>)
         | Some lastError \<Rightarrow>
             (if real_of_int attempt = maxRetries then
                (let reg2 = reg1\<lparr>status := (status reg1)(type \<mapsto> StatusError),
                                 emitted := emitted reg1 @ [ErrorEvent type lastError]\<rparr>
                 in if wc_isRequired config = Some True then (Inl lastError, reg2)
                    else attemptLoop br type config maxRetries (attempt + 1) reg2)
              else
                attemptLoop br type config maxRetries (attempt + 1)
                  (reg1\<lparr>timeouts := timeouts reg1 @ [2 ^ nat attempt * 100]\<rparr>)))
      else (Inr (), reg))"
  by pat_completeness auto
termination
  by (relation "measure (\<lambda>(br, type, config, maxRetries, attempt, reg).
                   nat (\<lfloor>maxRetries\<rfloor> + 1 - attempt))")
     (auto simp: le_floor_iff)

declare attemptLoop.simps [simp del]

text \<open>
  The loop over \<open>config.dependencies\<close>: a dependency whose status is not \<open>loaded\<close> is
  loaded by the recursive call \<open>load\<close>; a rejection of that call rejects the whole
  \<open>loadWorklet\<close>. The outer \<open>None\<close> is a call that does not return within the bound.
\<close>

fun loadDependencies ::
  "(WorkletType \<Rightarrow> WorkletRegistry \<Rightarrow> ((JsError + unit) \<times> WorkletRegistry) option)
     \<Rightarrow> WorkletType list \<Rightarrow> WorkletRegistry \<Rightarrow> ((JsError + unit) \<times> WorkletRegistry) option" where
  "loadDependencies load [] reg = Some (Inr (), reg)"
| "loadDependencies load (dep # rest) reg =
     (let depStatus = status reg dep in
      if depStatus \<noteq> Some Loaded then
        (case load dep reg of
           None \<Rightarrow> None
         | Some (Inl error, reg1) \<Rightarrow> Some (Inl error, reg1)
         | Some (Inr u, reg1) \<Rightarrow> loadDependencies load rest reg1)
      else loadDependencies load rest reg)"

text \<open>
  \<open>loadWorklet\<close>. A configuration that depends on itself, or a cycle of dependencies,
  makes the recursion endless; the first argument bounds the nesting of the calls.
\<close>

primrec loadWorklet ::
  "nat \<Rightarrow> Browser \<Rightarrow> WorkletType \<Rightarrow> WorkletRegistry
     \<Rightarrow> ((JsError + unit) \<times> WorkletRegistry) option" where
  "loadWorklet 0 = (\<lambda>br type reg. None)"
| "loadWorklet (Suc n) = (\<lambda>br type reg.
     if \<not> br_supported br then
       (let error = Error ''Worklet API is not supported in this browser'' in
        Some (Inl error,
              reg\<lparr>status := (status reg)(type \<mapsto> StatusError),
                  emitted := emitted reg @ [ErrorEvent type error]\<rparr>))
     else
       (case configs reg type of
          None \<Rightarrow>
            (let error = Error (''Worklet config not found for type: '' @ typeName type) in
             Some (Inl error,
                   reg\<lparr>status := (status reg)(type \<mapsto> StatusError),
                       emitted := emitted reg @ [ErrorEvent type error]\<rparr>))
        | Some config \<Rightarrow>
            (case loadDependencies (loadWorklet n br)
                    (case wc_dependencies config of None \<Rightarrow> [] | Some deps \<Rightarrow> deps) reg of
               None \<Rightarrow> None
             | Some (Inl error, reg1) \<Rightarrow> Some (Inl error, reg1)
             | Some (Inr u, reg1) \<Rightarrow>
                 (if status reg1 type = Some Loaded then Some (Inr (), reg1)
                  else
                    (let reg2 = reg1\<lparr>status := (status reg1)(type \<mapsto> Loading),
                                     emitted := emitted reg1 @ [LoadStart type]\<rparr>;
                         maxRetries = maxRetriesOf config
                     in Some (attemptLoop br type config maxRetries 1 reg2))))))"

text \<open>The delay before attempt \<open>attempt + 1\<close>: \<open>2 ** attempt * 100\<close> milliseconds.\<close>

definition backoffDelay :: "nat \<Rightarrow> int" where
  "backoffDelay attempt = 2 ^ attempt * 100"

section \<open>Concrete inputs\<close>

text \<open>Elements, trees, import data, canvas states, browsers and configurations used to
  run the definitions on concrete inputs; \<open>samplePatterns\<close> stands for regular expression
  tests that accept one string each.\<close>

definition sampleElement :: "ElementId \<Rightarrow> ElementType \<Rightarrow> ElementId list option \<Rightarrow> ElementData" where
  "sampleElement i t cs =
     \<lparr>ed_type = t, ed_id = i, ed_name = i, ed_style = [],
      ed_state = \<lparr>selected = False, hovered = False, active = False, locked = False,
                  hidden = False\<rparr>,
      ed_metadata = \<lparr>em_createdAt = 0, em_updatedAt = 0, em_createdBy = None,
                     em_version = ''1.0.0'', em_tags = [], em_description = None,
                     em_category = None\<rparr>,
      ed_parentId = None, ed_childrenIds = cs, ed_props = None, ed_worklet = None,
      ed_data = None\<rparr>"

definition sampleTree :: ElementNode where
  "sampleTree =
     Node (sampleElement ''root'' ''container'' (Some [''a'', ''b'']))
       (Some [Node (sampleElement ''a'' ''flex'' (Some [''c'']))
                (Some [Node (sampleElement ''c'' ''text'' None) None]),
              Node (sampleElement ''b'' ''image'' None) (Some [])])"


definition sampleClock :: Clock where
  "sampleClock =
     \<lparr>clk_now = 1000, clk_freshProjectId = ''project_1000_abc'', clk_historyTimestamp = 1001\<rparr>"

definition emptySimpleProject :: SimpleProject where
  "emptySimpleProject =
     \<lparr>sp_id = None, sp_name = None, sp_description = None, sp_createdAt = None,
      sp_updatedAt = None, sp_canvas = None, sp_elements = None, sp_version = None\<rparr>"

definition emptySimpleCanvas :: SimpleCanvas where
  "emptySimpleCanvas =
     \<lparr>sc_id = None, sc_name = None, sc_width = None, sc_height = None,
      sc_backgroundColor = None, sc_grid = None, sc_zoom = None, sc_elements = None\<rparr>"

definition negativeWidthData :: ImportData where
  "negativeWidthData =
     DataObject (emptySimpleProject\<lparr>sp_canvas := Some (emptySimpleCanvas\<lparr>sc_width := Some (- 5)\<rparr>)\<rparr>)"

definition sampleEntry :: "string \<Rightarrow> HistoryEntry" where
  "sampleEntry t = \<lparr>he_type = t, he_data = HValue JNull, he_timestamp = 0\<rparr>"

definition threeEntries :: "int \<Rightarrow> ElementStoreState" where
  "threeEntries i =
     initialElementStore\<lparr>history := [sampleEntry ''a'', sampleEntry ''b'', sampleEntry ''c''],
                         historyIndex := i\<rparr>"




definition failingBrowser :: Browser where
  "failingBrowser = \<lparr>br_supported = True, br_addModule = (\<lambda>k url. Some (Error ''network''))\<rparr>"

definition workingBrowser :: Browser where
  "workingBrowser = \<lparr>br_supported = True, br_addModule = (\<lambda>k url. None)\<rparr>"

definition layoutWithDependencies :: WorkletConfig where
  "layoutWithDependencies =
     \<lparr>wc_type = LayoutEngine, wc_url = ''/worklets/layout-engine.js'',
      wc_dependencies = Some [TextRenderer, CanvasEngine], wc_isRequired = Some False,
      wc_retryCount = Some 2\<rparr>"

definition gradientNoRetry :: WorkletConfig where
  "gradientNoRetry =
     \<lparr>wc_type = GradientEngine, wc_url = ''/worklets/gradient-engine.js'',
      wc_dependencies = None, wc_isRequired = Some False, wc_retryCount = Some 0\<rparr>"

definition textFractionalRetry :: WorkletConfig where
  "textFractionalRetry =
     \<lparr>wc_type = TextRenderer, wc_url = ''/worklets/text-renderer.js'',
      wc_dependencies = None, wc_isRequired = Some True, wc_retryCount = Some (5 / 2)\<rparr>"

definition gradientNegativeRetry :: WorkletConfig where
  "gradientNegativeRetry =
     \<lparr>wc_type = GradientEngine, wc_url = ''/worklets/gradient-engine.js'',
      wc_dependencies = None, wc_isRequired = Some True, wc_retryCount = Some (- 1)\<rparr>"

section \<open>Tree flatten and unflatten\<close>

lemma fold_traverse:
  assumes "\<And>x m. x \<in> set l \<Longrightarrow> traverse x m = fold putData (preorder x) m"
  shows "fold traverse l m = fold putData (concat (map preorder l)) m"
  using assms by (induction l arbitrary: m) simp_all

lemma traverse_preorder: "traverse t m = fold putData (preorder t) m"
proof (induction t arbitrary: m)
  case (Node d cs)
  show ?case
  proof (cases cs)
    case None
    then show ?thesis by (simp add: putData_def)
  next
    case (Some l)
    have "\<And>x m. x \<in> set l \<Longrightarrow> traverse x m = fold putData (preorder x) m"
      using Node Some by simp
    then show ?thesis using Some by (simp add: fold_traverse putData_def[symmetric])
  qed
qed

lemma fold_putData_other:
  "k \<notin> ed_id ` set ds \<Longrightarrow> fold putData ds m k = m k"
  by (induction ds arbitrary: m) (auto simp: putData_def)

lemma fold_putData_distinct:
  "distinct (map ed_id ds) \<Longrightarrow> d \<in> set ds \<Longrightarrow> fold putData ds m (ed_id d) = Some d"
proof (induction ds arbitrary: m)
  case Nil
  then show ?case by simp
next
  case (Cons a ds)
  show ?case
  proof (cases "d = a")
    case True
    then show ?thesis using Cons.prems by (simp add: fold_putData_other) (simp add: putData_def)
  next
    case False
    then show ?thesis using Cons by auto
  qed
qed

lemma forEachChild_all_found:
  assumes "\<And>c. c \<in> set cs \<Longrightarrow> build (ed_id (nodeData c)) = Some (Some (f c))"
  shows "forEachChild build (map (\<lambda>c. ed_id (nodeData c)) cs) acc = Some (acc @ map f cs)"
  using assms by (induction cs arbitrary: acc) simp_all

lemma length_child_preorder:
  "c \<in> set l \<Longrightarrow> length (preorder c) \<le> length (concat (map preorder l))"
  by (induction l) auto

lemma flatToTree_rebuild:
  assumes "\<And>d. d \<in> set (preorder t) \<Longrightarrow> m (ed_id d) = Some d"
    and "idsAgree t" and "length (preorder t) \<le> n"
  shows "flatToTree n m (ed_id (nodeData t)) = Some (Some (withChildArrays t))"
  using assms
proof (induction t arbitrary: n)
  case (Node d cs)
  from Node.prems(3) obtain k where n: "n = Suc k" by (cases n) auto
  have md: "m (ed_id d) = Some d" using Node.prems(1) by simp
  define l where "l = (case cs of None \<Rightarrow> [] | Some l \<Rightarrow> l)"
  have ids: "(case ed_childrenIds d of None \<Rightarrow> [] | Some ids \<Rightarrow> ids)
               = map (\<lambda>c. ed_id (nodeData c)) l"
    using Node.prems(2) by (simp add: l_def)
  have sub: "flatToTree k m (ed_id (nodeData c)) = Some (Some (withChildArrays c))"
    if c: "c \<in> set l" for c
  proof -
    from c obtain l' where cs: "cs = Some l'" and l': "l' = l"
      by (cases cs) (auto simp: l_def)
    have 1: "\<And>d. d \<in> set (preorder c) \<Longrightarrow> m (ed_id d) = Some d"
      using Node.prems(1) c cs l' by auto
    have 2: "idsAgree c" using Node.prems(2) c cs l' by (auto simp: list_all_iff)
    have "length (preorder c) \<le> length (concat (map preorder l))"
      using c by (rule length_child_preorder)
    then have 3: "length (preorder c) \<le> k" using Node.prems(3) n cs l' by simp
    show ?thesis using Node.IH[of l' c k] cs l' c 1 2 3 by simp
  qed
  have "forEachChild (flatToTree k m) (map (\<lambda>c. ed_id (nodeData c)) l) []
          = Some ([] @ map withChildArrays l)"
    by (rule forEachChild_all_found) (rule sub)
  then show ?case using n md ids by (simp add: l_def split: option.splits)
qed

lemma preorder_withChildArrays: "preorder (withChildArrays t) = preorder t"
proof (induction t)
  case (Node d cs)
  show ?case
  proof (cases cs)
    case None
    then show ?thesis by simp
  next
    case (Some l)
    have same: "map (preorder \<circ> withChildArrays) l = map preorder l"
      using Node Some by (intro map_cong) auto
    show ?thesis using Some by (simp add: same)
  qed
qed

text \<open>
  Claim C1. For a tree whose nodes have pairwise distinct ids and in which, at every node,
  \<open>childrenIds\<close> is the list of the ids of \<open>children\<close> in order, \<open>flatToTree\<close> applied to
  \<open>nodeToFlat t\<close> and the root id returns (within a nesting of calls bounded by the number of
  nodes) the tree \<open>withChildArrays t\<close>: the same node data in the same preorder, hence the
  same ids, the same fields of every node apart from \<open>children\<close>, and the same children in
  the same order, with every absent \<open>children\<close> field turned into an array.
\<close>

theorem flatToTree_nodeToFlat_roundtrip:
  assumes "distinct (map ed_id (preorder t))" and "idsAgree t" and "length (preorder t) \<le> n"
  shows "flatToTree n (nodeToFlat t) (ed_id (nodeData t)) = Some (Some (withChildArrays t))
         \<and> preorder (withChildArrays t) = preorder t"
proof
  show "flatToTree n (nodeToFlat t) (ed_id (nodeData t)) = Some (Some (withChildArrays t))"
  proof (rule flatToTree_rebuild)
    fix d assume "d \<in> set (preorder t)"
    then show "nodeToFlat t (ed_id d) = Some d"
      using assms(1) by (simp add: nodeToFlat_def traverse_preorder fold_putData_distinct)
  qed (use assms in auto)
  show "preorder (withChildArrays t) = preorder t" by (rule preorder_withChildArrays)
qed

text \<open>The round trip on a tree of four nodes, one of them without a \<open>children\<close> field.\<close>

theorem flatToTree_nodeToFlat_roundtrip_witness:
  "flatToTree 4 (nodeToFlat sampleTree) ''root'' =
     Some (Some (Node (sampleElement ''root'' ''container'' (Some [''a'', ''b'']))
       (Some [Node (sampleElement ''a'' ''flex'' (Some [''c'']))
                (Some [Node (sampleElement ''c'' ''text'' None) (Some [])]),
              Node (sampleElement ''b'' ''image'' None) (Some [])])))"
  using flatToTree_nodeToFlat_roundtrip [of sampleTree 4]
  by (simp add: sampleTree_def sampleElement_def)

section \<open>The derived tree of the element store\<close>

lemma pushChildren_forEachChild: "pushChildren b ids acc = forEachChild b ids acc"
  by (induction ids arbitrary: acc) (simp_all split: option.splits)

lemma buildTree_flatToTree: "buildTree n els i = flatToTree n els i"
proof (induction n arbitrary: i)
  case 0
  show ?case by simp
next
  case (Suc n)
  have "buildTree n els = flatToTree n els" using Suc by (intro ext)
  then show ?case by (simp add: pushChildren_forEachChild split: option.splits)
qed

text \<open>
  Claim C2, as stated, for every root id. It fails for the empty string: \<open>getElementTree\<close>
  then builds the tree of the store's \<open>rootElementId\<close>, while \<open>flatToTree\<close> looks the empty
  string up in the map and returns \<open>null\<close>.
\<close>

theorem getElementTree_empty_rootId_counterexample:
  "getElementTree 2
     (initialElementStore\<lparr>elements := [''a'' \<mapsto> sampleElement ''a'' ''text'' None],
                         rootElementId := Some ''a''\<rparr>) (Some [])
   \<noteq> flatToTree 2 [''a'' \<mapsto> sampleElement ''a'' ''text'' None] []"
  by (simp add: getElementTree_def orId_def initialElementStore_def numeral_2_eq_2
      sampleElement_def)

text \<open>
  Claim C2, amended. For every flat map and every root id other than the empty string,
  \<open>getElementTree\<close> on a store whose \<open>elements\<close> field is that map and \<open>flatToTree\<close> on the
  map give the same result for every bound on the nesting of calls: the same tree, \<open>null\<close>
  for both, or no result for both.
\<close>

theorem getElementTree_eq_flatToTree:
  "rootId \<noteq> [] \<Longrightarrow> getElementTree n st (Some rootId) = flatToTree n (elements st) rootId"
  by (simp add: getElementTree_def orId_def buildTree_flatToTree)

text \<open>The tree of a store with one element, asked for by its id.\<close>

theorem getElementTree_eq_flatToTree_witness:
  "getElementTree 2
     (initialElementStore\<lparr>elements := [''a'' \<mapsto> sampleElement ''a'' ''text'' None]\<rparr>) (Some ''a'')
   = Some (Some (Node (sampleElement ''a'' ''text'' None) (Some [])))"
  using getElementTree_eq_flatToTree [of "''a''" 2
      "initialElementStore\<lparr>elements := [''a'' \<mapsto> sampleElement ''a'' ''text'' None]\<rparr>"]
  by (simp add: numeral_2_eq_2 sampleElement_def)

section \<open>Validation results of the element store\<close>




text \<open>
  The same on every store, for every id that is not in the elements map and is the name
  of a property of \<open>Object.prototype\<close>, and whatever the regular expressions of the style
  rules accept: the ids left out above are those on which no result is returned.
\<close>

lemma validateElement_inherited_key:
  assumes "elements st i = None" and "i \<in> set objectPrototypeKeys"
  shows "validateElement pt st i = Inl (TypeError ''Cannot read properties of undefined'')"
proof -
  have "ev_type (viewOfInherited i) = JUndefined" "ev_style (viewOfInherited i) = None"
    by (simp_all add: viewOfInherited_def)
  then have "schemaValidator_validateElement pt (viewOfInherited i)
               = Inl (TypeError ''Cannot read properties of undefined'')"
    by (simp add: schemaValidator_validateElement_def elementRules_def commonStyleRules_def
        Let_def)
  then show ?thesis using assms by (simp add: validateElement_def recordGet_def)
qed

section \<open>Import\<close>

lemmas import_eval =
  importProject_def simpleToProject_def schemaValidator_validateProject_def Let_def
  orString_def orNumber_def orObject_def optChain_def defaultProjectName_def
  defaultCanvasName_def emptySimpleProject_def emptySimpleCanvas_def sampleClock_def

text \<open>
  Claim C7. When the conversion throws, or the converted project fails validation,
  \<open>importProject\<close> returns the store it was given, every field unchanged. (In this model
  validation of a converted project does not throw.)
\<close>

theorem importProject_atomic:
  assumes "(\<exists>e. simpleToProject clock data = Inl e)
           \<or> (\<exists>p. simpleToProject clock data = Inr p
                   \<and> \<not> vr_valid (schemaValidator_validateProject p))"
  shows "snd (importProject clock data st) = st"
  using assms by (auto simp: importProject_def Let_def)

text \<open>A canvas of width \<open>-5\<close> fails validation; \<open>null\<close> makes the conversion throw.\<close>

theorem importProject_atomic_witness:
  "importProject sampleClock negativeWidthData initialElementStore
     = ([''Invalid project data:''], initialElementStore)
   \<and> importProject sampleClock DataNull initialElementStore
     = ([''Failed to import project:''], initialElementStore)"
  using importProject_atomic [of sampleClock negativeWidthData initialElementStore]
    importProject_atomic [of sampleClock DataNull initialElementStore]
  by (simp add: import_eval negativeWidthData_def)

text \<open>An import that passes validation does change the store.\<close>

lemma importProject_valid_changes:
  "currentProject (snd (importProject sampleClock (DataObject emptySimpleProject)
      initialElementStore)) \<noteq> None
   \<and> historyIndex (snd (importProject sampleClock (DataObject emptySimpleProject)
      initialElementStore)) = 0"
  by (simp add: import_eval addHistory_def js_slice_def MAX_HISTORY_def)

section \<open>The history of the element store\<close>

lemma js_slice_from_start:
  "js_slice xs 0 e = take (nat (if e < 0 then max (int (length xs) + e) 0 else e)) xs"
  by (auto simp: js_slice_def Let_def min_def)

lemma js_slice_last:
  "0 < n \<Longrightarrow> length xs > n \<Longrightarrow> js_slice xs (- int n) (int (length xs)) = drop (length xs - n) xs"
  by (auto simp: js_slice_def Let_def max_def nat_diff_distrib)

lemma addHistory_result:
  "history (addHistory ty d ts st) =
     (let h2 = js_slice (history st) 0 (historyIndex st + 1)
                 @ [\<lparr>he_type = ty, he_data = d, he_timestamp = ts\<rparr>]
      in if length h2 > 100 then drop (length h2 - 100) h2 else h2)
   \<and> historyIndex (addHistory ty d ts st) = int (length (history (addHistory ty d ts st))) - 1"
  using js_slice_last[of 100 "js_slice (history st) 0 (historyIndex st + 1)
                 @ [\<lparr>he_type = ty, he_data = d, he_timestamp = ts\<rparr>]"]
  by (simp add: addHistory_def Let_def MAX_HISTORY_def)

text \<open>
  Claim C10, as stated, for any store state. It fails for a \<open>historyIndex\<close> below \<open>-1\<close>:
  with three entries and \<open>historyIndex = -2\<close>, \<open>slice(0, -1)\<close> keeps the first two entries,
  which lie after the previous index and are not discarded.
\<close>

theorem addHistory_negative_index_counterexample:
  "history (addHistory ''addElement'' (HValue JNull) 7 (threeEntries (- 2)))
   = [sampleEntry ''a'', sampleEntry ''b'',
      \<lparr>he_type = ''addElement'', he_data = HValue JNull, he_timestamp = 7\<rparr>]
   \<and> history (threeEntries (- 2)) ! 0 = sampleEntry ''a''
   \<and> historyIndex (threeEntries (- 2)) < 0"
  by (simp add: addHistory_def js_slice_def MAX_HISTORY_def Let_def threeEntries_def
      initialElementStore_def)

text \<open>
  Claim C10, amended. After \<open>addHistory\<close> on any store state the history holds at most 100
  entries, \<open>historyIndex\<close> is \<open>history.length - 1\<close> and the new entry is the last one; and
  when the previous \<open>historyIndex\<close> is at least \<open>-1\<close>, the entries before the new one are
  the entries at the positions up to the previous index (without the oldest ones when
  there are more than 99 of them), so every entry after the previous index has been
  discarded.
\<close>

theorem addHistory_bound_and_cursor:
  "length (history (addHistory ty d ts st)) \<le> 100
   \<and> historyIndex (addHistory ty d ts st) = int (length (history (addHistory ty d ts st))) - 1
   \<and> history (addHistory ty d ts st) \<noteq> []
   \<and> last (history (addHistory ty d ts st)) = \<lparr>he_type = ty, he_data = d, he_timestamp = ts\<rparr>
   \<and> (- 1 \<le> historyIndex st \<longrightarrow>
        butlast (history (addHistory ty d ts st))
          = drop (length (take (nat (historyIndex st + 1)) (history st)) + 1 - 100)
              (take (nat (historyIndex st + 1)) (history st)))"
proof -
  define e where "e = \<lparr>he_type = ty, he_data = d, he_timestamp = ts\<rparr>"
  define h1 where "h1 = js_slice (history st) 0 (historyIndex st + 1)"
  have h: "history (addHistory ty d ts st) =
             (if length (h1 @ [e]) > 100 then drop (length (h1 @ [e]) - 100) (h1 @ [e])
              else h1 @ [e])"
    using addHistory_result[of ty d ts st] by (simp add: Let_def h1_def e_def)
  have i: "historyIndex (addHistory ty d ts st)
             = int (length (history (addHistory ty d ts st))) - 1"
    using addHistory_result[of ty d ts st] by simp
  have kept: "- 1 \<le> historyIndex st \<Longrightarrow> take (nat (historyIndex st + 1)) (history st) = h1"
    by (simp add: h1_def js_slice_from_start)
  show ?thesis
  proof (cases "length (h1 @ [e]) > 100")
    case True
    then have r: "history (addHistory ty d ts st) = drop (length h1 + 1 - 100) h1 @ [e]"
      using h by simp
    show ?thesis unfolding i using True kept
      by (auto simp: r e_def)
  next
    case False
    then have r: "history (addHistory ty d ts st) = h1 @ [e]" using h by simp
    show ?thesis unfolding i using False kept
      by (auto simp: r e_def)
  qed
qed

text \<open>With the cursor on the first of three entries, the two later entries are dropped.\<close>

theorem addHistory_bound_and_cursor_witness:
  "history (addHistory ''addElement'' (HValue JNull) 7 (threeEntries 0))
   = [sampleEntry ''a'', \<lparr>he_type = ''addElement'', he_data = HValue JNull, he_timestamp = 7\<rparr>]
   \<and> historyIndex (addHistory ''addElement'' (HValue JNull) 7 (threeEntries 0)) = 1"
  using addHistory_bound_and_cursor [of "''addElement''" "HValue JNull" 7 "threeEntries 0"]
  by (simp add: addHistory_def js_slice_def MAX_HISTORY_def Let_def threeEntries_def)

text \<open>
  Every action on the history keeps \<open>historyIndex\<close> at \<open>-1\<close> or above, and the initial
  state has \<open>historyIndex = -1\<close>.
\<close>

lemma historyIndex_at_least_minus_one:
  "- 1 \<le> historyIndex initialElementStore"
  "- 1 \<le> historyIndex (addHistory ty d ts st)"
  "- 1 \<le> historyIndex (clearHistory st)"
  "- 1 \<le> historyIndex st \<Longrightarrow> - 1 \<le> historyIndex (undo st)"
  "- 1 \<le> historyIndex st \<Longrightarrow> - 1 \<le> historyIndex (redo st)"
  "- 1 \<le> historyIndex st \<Longrightarrow> - 1 \<le> historyIndex (snd (importProject clock data st))"
proof -
  show "- 1 \<le> historyIndex initialElementStore" by (simp add: initialElementStore_def)
  show a: "- 1 \<le> historyIndex (addHistory ty d ts st)" for ty d ts st
    using addHistory_result[of ty d ts st] by simp
  show "- 1 \<le> historyIndex (clearHistory st)" by (simp add: clearHistory_def)
  show "- 1 \<le> historyIndex st \<Longrightarrow> - 1 \<le> historyIndex (undo st)" by (simp add: undo_def)
  show "- 1 \<le> historyIndex st \<Longrightarrow> - 1 \<le> historyIndex (redo st)" by (simp add: redo_def)
  show "- 1 \<le> historyIndex st \<Longrightarrow> - 1 \<le> historyIndex (snd (importProject clock data st))"
    using a by (auto simp: importProject_def Let_def split: sum.splits)
qed

section \<open>The zoom level of the canvas store\<close>

lemma zoomIn_range:
  assumes "num_le (minZoom s) (zoom s)" and "num_le (zoom s) (maxZoom s)"
    and "num_le (Finite 0) (zoomStep s)"
    and "isFinite (zoom s) \<or> isFinite (zoomStep s)"
  shows "zoomInRange (zoomIn s)"
  using assms
  by (cases "zoom s"; cases "zoomStep s"; cases "minZoom s"; cases "maxZoom s")
     (simp_all add: zoomInRange_def zoomIn_def Math_min_def isFinite_def)

lemma zoomOut_range:
  assumes "num_le (minZoom s) (zoom s)" and "num_le (zoom s) (maxZoom s)"
    and "num_le (Finite 0) (zoomStep s)"
    and "isFinite (zoom s) \<or> isFinite (zoomStep s)"
  shows "zoomInRange (zoomOut s)"
  using assms
  by (cases "zoom s"; cases "zoomStep s"; cases "minZoom s"; cases "maxZoom s")
     (simp_all add: zoomInRange_def zoomOut_def Math_max_def num_sub_def isFinite_def)

lemma setZoom_range:
  assumes "num_le (minZoom s) (Finite 1)" and "num_le (Finite 1) (maxZoom s)" and "z \<noteq> NaN"
  shows "zoomInRange (setZoom z s)"
  using assms
  by (cases z; cases "minZoom s"; cases "maxZoom s")
     (simp_all add: zoomInRange_def setZoom_def Math_max_def Math_min_def)




text \<open>
  The two conditions added to the claim are needed: under its three conditions, \<open>zoomIn\<close>,
  \<open>zoomOut\<close> and \<open>setZoom\<close> all keep the zoom in range exactly when \<open>zoom\<close> and
  \<open>zoomStep\<close> are not both infinite and the argument is not \<open>NaN\<close>.
\<close>

lemma num_le_NaN: "\<not> num_le a NaN" "\<not> num_le NaN a"
  by (cases a; simp)+

lemma setZoom_NaN: "\<not> zoomInRange (setZoom NaN s)"
  by (simp add: zoomInRange_def setZoom_def Math_min_def Math_max_def num_le_NaN)

lemma zoomIn_zoomOut_infinite:
  assumes "num_le (minZoom s) (zoom s)" and "num_le (zoom s) (maxZoom s)"
    and "num_le (Finite 0) (zoomStep s)"
    and "\<not> isFinite (zoom s)" and "\<not> isFinite (zoomStep s)"
  shows "\<not> (zoomInRange (zoomIn s) \<and> zoomInRange (zoomOut s))"
  using assms
  by (cases "zoom s"; cases "zoomStep s"; cases "minZoom s"; cases "maxZoom s")
     (simp_all add: zoomInRange_def zoomIn_def zoomOut_def Math_min_def Math_max_def
        num_sub_def isFinite_def)

lemma zoom_clamp_exact:
  assumes "num_le (minZoom s) (zoom s)" and "num_le (zoom s) (maxZoom s)"
    and "num_le (minZoom s) (Finite 1)" and "num_le (Finite 1) (maxZoom s)"
    and "num_le (Finite 0) (zoomStep s)"
  shows "zoomInRange (zoomIn s) \<and> zoomInRange (zoomOut s) \<and> zoomInRange (setZoom z s)
         \<longleftrightarrow> (isFinite (zoom s) \<or> isFinite (zoomStep s)) \<and> z \<noteq> NaN"
  using assms zoomIn_range[of s] zoomOut_range[of s] setZoom_range[of s z]
    zoomIn_zoomOut_infinite[of s] setZoom_NaN[of s]
  by blast

section \<open>The tag of a rendered element\<close>


lemma num_less_not_le: "num_less a b \<Longrightarrow> \<not> num_le b a"
  by (cases a; cases b) simp_all




text \<open>
  The same for every type that is the name of a property of \<open>Object.prototype\<close>: under
  the conditions of the claim, \<open>render\<close> returns no element. The types left out above are
  those for which the container renderer is not substituted.
\<close>

lemma render_inherited_key:
  assumes "\<not> hidden (ed_state element)"
    and "eng_customRenderers eng (ed_type element) = None"
    and "num_less (Finite (real_of_int (eng_depth eng))) (maxDepthOrDefault (eng_options eng))"
    and "ed_type element \<in> set objectPrototypeKeys"
  shows "renderedTag (fst (render rt eng element)) = None"
proof -
  have "map_of renderers (ed_type element) = None"
    using assms(4) by (auto simp: renderers_def objectPrototypeKeys_def)
  then have "getBuiltInRenderer (ed_type element) = PrototypeMember (ed_type element)"
    using assms(4) by (simp add: getBuiltInRenderer_def recordGet_def)
  then show ?thesis
    using assms(1,2) num_less_not_le[OF assms(3)]
    by (simp add: render_def Let_def callRenderer_def renderCatch_def renderedTag_def)
qed

section \<open>The worklet loader: retries, backoff and dependencies\<close>

lemma attemptLoop_exit:
  "m < real_of_int a \<Longrightarrow> attemptLoop br t config m a reg = (Inr (), reg)"
  by (subst attemptLoop.simps) simp

lemma attemptLoop_step_success:
  assumes "real_of_int a \<le> m"
    and "br_addModule br (length (addModuleCalls reg)) (wc_url config) = None"
  shows "attemptLoop br t config m a reg =
     (Inr (),
      reg\<lparr>addModuleCalls := addModuleCalls reg @ [wc_url config],
          status := (status reg)(t \<mapsto> Loaded),
          loadedWorklets := setAdd t (loadedWorklets reg),
          emitted := emitted reg @ [Load t]\<rparr>)"
  using assms by (subst attemptLoop.simps) (simp add: Let_def)

lemma attemptLoop_step_last:
  assumes "real_of_int a = m"
    and "br_addModule br (length (addModuleCalls reg)) (wc_url config) = Some e"
  shows "attemptLoop br t config m a reg =
     (if wc_isRequired config = Some True then Inl e else Inr (),
      reg\<lparr>addModuleCalls := addModuleCalls reg @ [wc_url config],
          status := (status reg)(t \<mapsto> StatusError),
          emitted := emitted reg @ [ErrorEvent t e]\<rparr>)"
proof -
  define reg2 where "reg2 = reg\<lparr>addModuleCalls := addModuleCalls reg @ [wc_url config],
      status := (status reg)(t \<mapsto> StatusError), emitted := emitted reg @ [ErrorEvent t e]\<rparr>"
  have exit: "attemptLoop br t config m (a + 1) reg2 = (Inr (), reg2)"
    using assms(1) by (intro attemptLoop_exit) simp
  show ?thesis using assms exit
    by (subst attemptLoop.simps) (simp add: Let_def reg2_def)
qed

lemma attemptLoop_failures:
  assumes "\<forall>j<k. br_addModule br (length (addModuleCalls reg) + j) (wc_url config) \<noteq> None"
    and "real_of_int (a + int k) - 1 < m \<or> k = 0" and "0 \<le> a"
  shows "attemptLoop br t config m a reg =
     attemptLoop br t config m (a + int k)
       (reg\<lparr>addModuleCalls := addModuleCalls reg @ replicate k (wc_url config),
            timeouts := timeouts reg @ map backoffDelay [nat a ..< nat a + k]\<rparr>)"
  using assms
proof (induction k arbitrary: a reg)
  case 0
  then show ?case by simp
next
  case (Suc k)
  from Suc.prems(1) obtain e where
    e: "br_addModule br (length (addModuleCalls reg)) (wc_url config) = Some e"
    by force
  define reg' where "reg' = reg\<lparr>addModuleCalls := addModuleCalls reg @ [wc_url config],
                               timeouts := timeouts reg @ [2 ^ nat a * 100]\<rparr>"
  have lt: "real_of_int a < m" using Suc.prems(2) by simp
  have step: "attemptLoop br t config m a reg = attemptLoop br t config m (a + 1) reg'"
    using lt e by (subst attemptLoop.simps) (simp add: Let_def reg'_def)
  have 1: "\<forall>j<k. br_addModule br (length (addModuleCalls reg') + j) (wc_url config) \<noteq> None"
    using Suc.prems(1) by (auto simp: reg'_def)
  have 2: "real_of_int (a + 1 + int k) - 1 < m \<or> k = 0" using Suc.prems(2) by simp
  have 3: "0 \<le> a + 1" using Suc.prems(3) by simp
  have upt: "[nat a ..< nat a + Suc k] = nat a # [nat (a + 1) ..< nat (a + 1) + k]"
    using Suc.prems(3) by (simp add: upt_conv_Cons nat_add_distrib)
  have idx: "a + 1 + int k = a + int (Suc k)" by simp
  show ?case unfolding step Suc.IH[OF 1 2 3] upt idx
    by (simp add: reg'_def backoffDelay_def[symmetric] del: fun_upd_apply)
qed

text \<open>The outcome for a whole number N >= 1 of attempts.\<close>

lemma attemptLoop_outcome:
  assumes "m = real N" and "1 \<le> N"
  shows "\<exists>k. Suc k \<le> N
     \<and> (\<forall>j<k. br_addModule br (length (addModuleCalls reg) + j) (wc_url config) \<noteq> None)
     \<and> (case br_addModule br (length (addModuleCalls reg) + k) (wc_url config) of
          None \<Rightarrow>
            attemptLoop br t config m 1 reg =
              (Inr (),
               reg\<lparr>addModuleCalls := addModuleCalls reg @ replicate (Suc k) (wc_url config),
                   timeouts := timeouts reg @ map backoffDelay [1 ..< Suc k],
                   status := (status reg)(t \<mapsto> Loaded),
                   loadedWorklets := setAdd t (loadedWorklets reg),
                   emitted := emitted reg @ [Load t]\<rparr>)
        | Some e \<Rightarrow>
            Suc k = N \<and>
            attemptLoop br t config m 1 reg =
              (if wc_isRequired config = Some True then Inl e else Inr (),
               reg\<lparr>addModuleCalls := addModuleCalls reg @ replicate (Suc k) (wc_url config),
                   timeouts := timeouts reg @ map backoffDelay [1 ..< Suc k],
                   status := (status reg)(t \<mapsto> StatusError),
                   emitted := emitted reg @ [ErrorEvent t e]\<rparr>))"
proof -
  let ?ok = "\<lambda>j. br_addModule br (length (addModuleCalls reg) + j) (wc_url config) = None"
  define k where "k = (if \<exists>j<N. ?ok j then (LEAST i. ?ok i) else N - 1)"
  have kN: "Suc k \<le> N"
  proof (cases "\<exists>j<N. ?ok j")
    case True
    then obtain j where j: "j < N" "?ok j" by blast
    have "(LEAST i. ?ok i) \<le> j" using j(2) by (rule Least_le)
    then show ?thesis using True j(1) by (simp add: k_def)
  next
    case False
    then have "k = N - 1" by (simp only: k_def if_False)
    then show ?thesis using assms(2) by simp
  qed
  have before: "\<forall>i<k. \<not> ?ok i"
  proof (cases "\<exists>j<N. ?ok j")
    case True
    then show ?thesis using not_less_Least by (auto simp: k_def)
  next
    case False
    then show ?thesis using kN by (auto simp: k_def)
  qed
  define regk where "regk = reg\<lparr>addModuleCalls := addModuleCalls reg @ replicate k (wc_url config),
            timeouts := timeouts reg @ map backoffDelay [nat 1 ..< nat 1 + k]\<rparr>"
  have skip: "attemptLoop br t config m 1 reg = attemptLoop br t config m (1 + int k) regk"
    unfolding regk_def using before kN assms(1)
    by (intro attemptLoop_failures) auto
  have len: "length (addModuleCalls regk) = length (addModuleCalls reg) + k"
    by (simp add: regk_def)
  show ?thesis
  proof (cases "br_addModule br (length (addModuleCalls reg) + k) (wc_url config)")
    case None
    have "attemptLoop br t config m (1 + int k) regk =
     (Inr (),
      regk\<lparr>addModuleCalls := addModuleCalls regk @ [wc_url config],
          status := (status regk)(t \<mapsto> Loaded),
          loadedWorklets := setAdd t (loadedWorklets regk),
          emitted := emitted regk @ [Load t]\<rparr>)"
      using kN assms(1) None len by (intro attemptLoop_step_success) auto
    then have eq: "attemptLoop br t config m 1 reg =
              (Inr (),
               reg\<lparr>addModuleCalls := addModuleCalls reg @ replicate (Suc k) (wc_url config),
                   timeouts := timeouts reg @ map backoffDelay [1 ..< Suc k],
                   status := (status reg)(t \<mapsto> Loaded),
                   loadedWorklets := setAdd t (loadedWorklets reg),
                   emitted := emitted reg @ [Load t]\<rparr>)"
      using skip by (simp add: regk_def replicate_append_same del: upt_Suc fun_upd_apply)
    show ?thesis using None kN before
      by (intro exI[of _ k]) (simp add: eq del: replicate_Suc upt_Suc fun_upd_apply)
  next
    case (Some e)
    have last: "Suc k = N"
    proof (rule ccontr)
      assume "Suc k \<noteq> N"
      then have "\<exists>j<N. ?ok j" using kN by (auto simp: k_def split: if_splits)
      then have "?ok k" unfolding k_def by (auto intro: LeastI)
      then show False using Some by simp
    qed
    have "attemptLoop br t config m (1 + int k) regk =
     (if wc_isRequired config = Some True then Inl e else Inr (),
      regk\<lparr>addModuleCalls := addModuleCalls regk @ [wc_url config],
          status := (status regk)(t \<mapsto> StatusError),
          emitted := emitted regk @ [ErrorEvent t e]\<rparr>)"
      using last assms(1) Some len by (intro attemptLoop_step_last) auto
    then have eq: "attemptLoop br t config m 1 reg =
              (if wc_isRequired config = Some True then Inl e else Inr (),
               reg\<lparr>addModuleCalls := addModuleCalls reg @ replicate (Suc k) (wc_url config),
                   timeouts := timeouts reg @ map backoffDelay [1 ..< Suc k],
                   status := (status reg)(t \<mapsto> StatusError),
                   emitted := emitted reg @ [ErrorEvent t e]\<rparr>)"
      using skip by (simp add: regk_def replicate_append_same del: upt_Suc fun_upd_apply)
    have "Suc k \<le> N \<and> Suc k = N" using last by simp
    then show ?thesis using Some before
      by (intro exI[of _ k]) (simp add: eq del: replicate_Suc upt_Suc fun_upd_apply)
  qed
qed

text \<open>
  A fractional number of attempts: \<open>attempt === maxRetries\<close> never holds, so when all
  attempts fail the loop waits after the last one as well and is left with the status
  unchanged.
\<close>

lemma attemptLoop_fractional:
  assumes "real N < m" and "m < real N + 1"
  shows "\<exists>k. k \<le> N
     \<and> (\<forall>j<k. br_addModule br (length (addModuleCalls reg) + j) (wc_url config) \<noteq> None)
     \<and> (if k < N then
          attemptLoop br t config m 1 reg =
            (Inr (),
             reg\<lparr>addModuleCalls := addModuleCalls reg @ replicate (Suc k) (wc_url config),
                 timeouts := timeouts reg @ map backoffDelay [1 ..< Suc k],
                 status := (status reg)(t \<mapsto> Loaded),
                 loadedWorklets := setAdd t (loadedWorklets reg),
                 emitted := emitted reg @ [Load t]\<rparr>)
        else
          attemptLoop br t config m 1 reg =
            (Inr (),
             reg\<lparr>addModuleCalls := addModuleCalls reg @ replicate k (wc_url config),
                 timeouts := timeouts reg @ map backoffDelay [1 ..< Suc k]\<rparr>))"
proof -
  let ?ok = "\<lambda>j. br_addModule br (length (addModuleCalls reg) + j) (wc_url config) = None"
  define k where "k = (if \<exists>j<N. ?ok j then (LEAST i. ?ok i) else N)"
  have kN: "k \<le> N"
  proof (cases "\<exists>j<N. ?ok j")
    case True
    then obtain j where j: "j < N" "?ok j" by blast
    have "(LEAST i. ?ok i) \<le> j" using j(2) by (rule Least_le)
    then show ?thesis using True j(1) by (simp add: k_def)
  next
    case False
    then have "k = N" by (simp only: k_def if_False)
    then show ?thesis by simp
  qed
  have before: "\<forall>i<k. \<not> ?ok i"
  proof (cases "\<exists>j<N. ?ok j")
    case True
    then show ?thesis using not_less_Least by (auto simp: k_def)
  next
    case False
    then show ?thesis using kN by (auto simp: k_def)
  qed
  define regk where "regk = reg\<lparr>addModuleCalls := addModuleCalls reg @ replicate k (wc_url config),
            timeouts := timeouts reg @ map backoffDelay [nat 1 ..< nat 1 + k]\<rparr>"
  have skip: "attemptLoop br t config m 1 reg = attemptLoop br t config m (1 + int k) regk"
    unfolding regk_def using before kN assms(1)
    by (intro attemptLoop_failures) auto
  have len: "length (addModuleCalls regk) = length (addModuleCalls reg) + k"
    by (simp add: regk_def)
  show ?thesis
  proof (cases "k < N")
    case True
    then have "\<exists>j<N. ?ok j" by (auto simp: k_def split: if_splits)
    then have ok: "?ok k" unfolding k_def by (auto intro: LeastI)
    have "attemptLoop br t config m (1 + int k) regk =
     (Inr (),
      regk\<lparr>addModuleCalls := addModuleCalls regk @ [wc_url config],
          status := (status regk)(t \<mapsto> Loaded),
          loadedWorklets := setAdd t (loadedWorklets regk),
          emitted := emitted regk @ [Load t]\<rparr>)"
      using True assms(1) ok len by (intro attemptLoop_step_success) auto
    then have eq: "attemptLoop br t config m 1 reg =
            (Inr (),
             reg\<lparr>addModuleCalls := addModuleCalls reg @ replicate (Suc k) (wc_url config),
                 timeouts := timeouts reg @ map backoffDelay [1 ..< Suc k],
                 status := (status reg)(t \<mapsto> Loaded),
                 loadedWorklets := setAdd t (loadedWorklets reg),
                 emitted := emitted reg @ [Load t]\<rparr>)"
      using skip by (simp add: regk_def replicate_append_same del: upt_Suc fun_upd_apply)
    show ?thesis using True kN before
      by (intro exI[of _ k]) (simp add: eq del: replicate_Suc upt_Suc fun_upd_apply)
  next
    case False
    then have kn: "k = N" using kN by simp
    have "attemptLoop br t config m (1 + int k) regk = (Inr (), regk)"
      using kn assms(2) by (intro attemptLoop_exit) simp
    then have eq: "attemptLoop br t config m 1 reg =
            (Inr (),
             reg\<lparr>addModuleCalls := addModuleCalls reg @ replicate k (wc_url config),
                 timeouts := timeouts reg @ map backoffDelay [1 ..< Suc k]\<rparr>)"
      using skip by (simp add: regk_def del: upt_Suc)
    show ?thesis using False kN before
      by (intro exI[of _ k]) (simp add: eq del: replicate_Suc upt_Suc)
  qed
qed

lemma attemptLoop_trace:
  "\<exists>k d. addModuleCalls (snd (attemptLoop br t config m 1 reg))
          = addModuleCalls reg @ replicate k (wc_url config)
      \<and> timeouts (snd (attemptLoop br t config m 1 reg))
          = timeouts reg @ map backoffDelay [1 ..< Suc d]
      \<and> (d = k - 1 \<or> d = k)
      \<and> (m \<in> \<int> \<longrightarrow> timeouts (snd (attemptLoop br t config m 1 reg))
                      = timeouts reg @ map backoffDelay [1 ..< k])"
proof (cases "1 \<le> m")
  case False
  then have "attemptLoop br t config m 1 reg = (Inr (), reg)" by (intro attemptLoop_exit) simp
  then show ?thesis by (intro exI[of _ 0]) simp
next
  case True
  define N where "N = nat \<lfloor>m\<rfloor>"
  have N: "1 \<le> N" "real N \<le> m" "m < real N + 1"
    using True by (auto simp: N_def le_nat_iff le_floor_iff)
  show ?thesis
  proof (cases "m = real N")
    case whole: True
    from attemptLoop_outcome[OF whole N(1), of br reg config t] obtain k where
      k: "(case br_addModule br (length (addModuleCalls reg) + k) (wc_url config) of
          None \<Rightarrow>
            attemptLoop br t config m 1 reg =
              (Inr (),
               reg\<lparr>addModuleCalls := addModuleCalls reg @ replicate (Suc k) (wc_url config),
                   timeouts := timeouts reg @ map backoffDelay [1 ..< Suc k],
                   status := (status reg)(t \<mapsto> Loaded),
                   loadedWorklets := setAdd t (loadedWorklets reg),
                   emitted := emitted reg @ [Load t]\<rparr>)
        | Some e \<Rightarrow>
            Suc k = N \<and>
            attemptLoop br t config m 1 reg =
              (if wc_isRequired config = Some True then Inl e else Inr (),
               reg\<lparr>addModuleCalls := addModuleCalls reg @ replicate (Suc k) (wc_url config),
                   timeouts := timeouts reg @ map backoffDelay [1 ..< Suc k],
                   status := (status reg)(t \<mapsto> StatusError),
                   emitted := emitted reg @ [ErrorEvent t e]\<rparr>))"
      by blast
    show ?thesis
      by (rule exI[of _ "Suc k"], rule exI[of _ k])
         (use k in \<open>auto split: option.splits simp del: replicate_Suc upt_Suc\<close>)
  next
    case False
    then have lt: "real N < m" using N(2) by simp
    have notint: "m \<notin> \<int>"
    proof
      assume "m \<in> \<int>"
      then obtain z where z: "m = of_int z" by (auto elim: Ints_cases)
      then have "0 \<le> z" using True by simp
      then have "real (nat \<lfloor>m\<rfloor>) = m" using z by simp
      then show False using False by (simp only: N_def)
    qed
    from attemptLoop_fractional[OF lt N(3), of br reg config t] obtain k where
      k: "k \<le> N"
      "(if k < N then
          attemptLoop br t config m 1 reg =
            (Inr (),
             reg\<lparr>addModuleCalls := addModuleCalls reg @ replicate (Suc k) (wc_url config),
                 timeouts := timeouts reg @ map backoffDelay [1 ..< Suc k],
                 status := (status reg)(t \<mapsto> Loaded),
                 loadedWorklets := setAdd t (loadedWorklets reg),
                 emitted := emitted reg @ [Load t]\<rparr>)
        else
          attemptLoop br t config m 1 reg =
            (Inr (),
             reg\<lparr>addModuleCalls := addModuleCalls reg @ replicate k (wc_url config),
                 timeouts := timeouts reg @ map backoffDelay [1 ..< Suc k]\<rparr>))"
      by blast
    show ?thesis
    proof (cases "k < N")
      case True
      then show ?thesis using k(2) notint
        by (intro exI[of _ "Suc k"] exI[of _ k]) (simp del: replicate_Suc upt_Suc)
    next
      case False
      then show ?thesis using k(2) notint
        by (intro exI[of _ k] exI[of _ k]) (simp del: replicate_Suc upt_Suc)
    qed
  qed
qed

text \<open>
  The number of attempts allowed is a whole number, at least 1, exactly when \<open>retryCount\<close>
  is absent, zero or a positive whole number.
\<close>

lemma maxRetriesOf_whole:
  "(\<exists>N. 1 \<le> N \<and> maxRetriesOf config = real N)
     \<longleftrightarrow> wc_retryCount config = None \<or> (\<exists>N. wc_retryCount config = Some (real N))"
proof
  assume "\<exists>N. 1 \<le> N \<and> maxRetriesOf config = real N"
  then obtain N where N: "1 \<le> N" "maxRetriesOf config = real N" by blast
  show "wc_retryCount config = None \<or> (\<exists>N. wc_retryCount config = Some (real N))"
  proof (cases "wc_retryCount config")
    case None
    then show ?thesis by simp
  next
    case (Some r)
    show ?thesis
    proof (cases "r = 0")
      case True
      then have "wc_retryCount config = Some (real 0)" using Some by simp
      then show ?thesis by blast
    next
      case False
      then have "r = real N" using N(2) Some by (simp add: maxRetriesOf_def)
      then show ?thesis using Some by blast
    qed
  qed
next
  assume "wc_retryCount config = None \<or> (\<exists>N. wc_retryCount config = Some (real N))"
  then show "\<exists>N. 1 \<le> N \<and> maxRetriesOf config = real N"
  proof
    assume "wc_retryCount config = None"
    then have "1 \<le> (1::nat) \<and> maxRetriesOf config = real 1" by (simp add: maxRetriesOf_def)
    then show ?thesis by blast
  next
    assume "\<exists>N. wc_retryCount config = Some (real N)"
    then obtain N where N: "wc_retryCount config = Some (real N)" by blast
    show ?thesis
    proof (cases "N = 0")
      case True
      then have "1 \<le> (1::nat) \<and> maxRetriesOf config = real 1"
        using N by (simp add: maxRetriesOf_def)
      then show ?thesis by blast
    next
      case False
      then have "1 \<le> N \<and> maxRetriesOf config = real N" using N by (simp add: maxRetriesOf_def)
      then show ?thesis by blast
    qed
  qed
qed

lemma loadWorklet_own:
  assumes "br_supported br" and "configs reg type = Some config"
    and "loadDependencies (loadWorklet n br)
           (case wc_dependencies config of None \<Rightarrow> [] | Some deps \<Rightarrow> deps) reg = Some (Inr u, reg1)"
    and "status reg1 type \<noteq> Some Loaded"
  shows "loadWorklet (Suc n) br type reg =
     Some (attemptLoop br type config (maxRetriesOf config) 1
             (reg1\<lparr>status := (status reg1)(type \<mapsto> Loading),
                   emitted := emitted reg1 @ [LoadStart type]\<rparr>))"
  using assms by (simp add: Let_def)

text \<open>
  Claim C3, amended. Let the Worklet API be supported, the configuration be registered,
  its dependencies be resolved (leaving the registry \<open>reg1\<close>) and the worklet not be loaded
  yet. Let \<open>maxRetries\<close> be \<open>retryCount\<close> when it is present and not zero, and 1 when it is
  absent or zero, and let it be a whole number \<open>N\<close>, at least 1 (so \<open>retryCount\<close> is absent,
  zero or a positive whole number). Then \<open>loadWorklet\<close> returns after \<open>k + 1\<close> calls
  of \<open>addModule\<close> with the worklet's URL, \<open>k + 1 \<le> maxRetries\<close>; the first \<open>k\<close> calls have
  failed; if the last call succeeds the status is \<open>loaded\<close>, the event \<open>load\<close> is emitted
  and the promise resolves; if it fails, all \<open>maxRetries\<close> attempts have been made, the
  status is \<open>error\<close>, an \<open>error\<close> event with the last error is emitted, and the promise
  rejects with that error exactly when \<open>isRequired\<close> is true and resolves otherwise.
\<close>

theorem loadWorklet_retry:
  assumes "br_supported br" and "configs reg type = Some config"
    and "loadDependencies (loadWorklet n br)
           (case wc_dependencies config of None \<Rightarrow> [] | Some deps \<Rightarrow> deps) reg = Some (Inr (), reg1)"
    and "status reg1 type \<noteq> Some Loaded"
    and "maxRetriesOf config = real N" and "1 \<le> N"
  shows "\<exists>res reg' k. loadWorklet (Suc n) br type reg = Some (res, reg')
     \<and> addModuleCalls reg' = addModuleCalls reg1 @ replicate (Suc k) (wc_url config)
     \<and> Suc k \<le> N
     \<and> (\<forall>j<k. br_addModule br (length (addModuleCalls reg1) + j) (wc_url config) \<noteq> None)
     \<and> (case br_addModule br (length (addModuleCalls reg1) + k) (wc_url config) of
          None \<Rightarrow>
            res = Inr () \<and> status reg' type = Some Loaded \<and> type \<in> set (loadedWorklets reg')
            \<and> emitted reg' = emitted reg1 @ [LoadStart type, Load type]
        | Some e \<Rightarrow>
            Suc k = N \<and> status reg' type = Some StatusError
            \<and> emitted reg' = emitted reg1 @ [LoadStart type, ErrorEvent type e]
            \<and> res = (if wc_isRequired config = Some True then Inl e else Inr ()))"
proof -
  define reg2 where "reg2 = reg1\<lparr>status := (status reg1)(type \<mapsto> Loading),
                                 emitted := emitted reg1 @ [LoadStart type]\<rparr>"
  have run: "loadWorklet (Suc n) br type reg =
               Some (attemptLoop br type config (maxRetriesOf config) 1 reg2)"
    unfolding reg2_def using assms(1-4) by (rule loadWorklet_own)
  from attemptLoop_outcome[OF assms(5,6), of br reg2 config type] obtain k where
    k1: "Suc k \<le> N"
    and k2: "\<forall>j<k. br_addModule br (length (addModuleCalls reg2) + j) (wc_url config) \<noteq> None"
    and k3: "(case br_addModule br (length (addModuleCalls reg2) + k) (wc_url config) of
          None \<Rightarrow>
            attemptLoop br type config (maxRetriesOf config) 1 reg2 =
              (Inr (),
               reg2\<lparr>addModuleCalls := addModuleCalls reg2 @ replicate (Suc k) (wc_url config),
                   timeouts := timeouts reg2 @ map backoffDelay [1 ..< Suc k],
                   status := (status reg2)(type \<mapsto> Loaded),
                   loadedWorklets := setAdd type (loadedWorklets reg2),
                   emitted := emitted reg2 @ [Load type]\<rparr>)
        | Some e \<Rightarrow>
            Suc k = N \<and>
            attemptLoop br type config (maxRetriesOf config) 1 reg2 =
              (if wc_isRequired config = Some True then Inl e else Inr (),
               reg2\<lparr>addModuleCalls := addModuleCalls reg2 @ replicate (Suc k) (wc_url config),
                   timeouts := timeouts reg2 @ map backoffDelay [1 ..< Suc k],
                   status := (status reg2)(type \<mapsto> StatusError),
                   emitted := emitted reg2 @ [ErrorEvent type e]\<rparr>))"
    by blast
  have c2: "addModuleCalls reg2 = addModuleCalls reg1" by (simp add: reg2_def)
  show ?thesis
  proof (cases "br_addModule br (length (addModuleCalls reg1) + k) (wc_url config)")
    case None
    then show ?thesis using run k1 k2 k3 c2
      by (intro exI[of _ "Inr ()"] exI[of _ "snd (attemptLoop br type config (maxRetriesOf config) 1 reg2)"] exI[of _ k])
         (simp add: reg2_def setAdd_def del: replicate_Suc upt_Suc)
  next
    case (Some e)
    then show ?thesis using run k1 k2 k3 c2
      by (intro exI[of _ "fst (attemptLoop br type config (maxRetriesOf config) 1 reg2)"] exI[of _ "snd (attemptLoop br type config (maxRetriesOf config) 1 reg2)"] exI[of _ k])
         (simp add: reg2_def del: replicate_Suc upt_Suc)
  qed
qed

text \<open>
  Claim C5, amended. The delays \<open>loadWorklet\<close> waits between its attempts are
  \<open>2 ^ i * 100\<close> milliseconds after the failed attempt number \<open>i\<close>: with \<open>k\<close> attempts made,
  the delays are \<open>backoffDelay 1, ..., backoffDelay d\<close>, each twice the one before, where
  \<open>d\<close> is \<open>k - 1\<close> or \<open>k\<close>; when the number of attempts allowed is a whole number, the
  delays are \<open>backoffDelay 1, ..., backoffDelay (k - 1)\<close>, one after every attempt but the
  last. (With a fractional number allowed and every attempt failing, the loop waits after
  the last attempt as well.)
\<close>

theorem loadWorklet_backoff:
  assumes "br_supported br" and "configs reg type = Some config"
    and "loadDependencies (loadWorklet n br)
           (case wc_dependencies config of None \<Rightarrow> [] | Some deps \<Rightarrow> deps) reg = Some (Inr (), reg1)"
    and "status reg1 type \<noteq> Some Loaded"
  shows "\<exists>res reg' k d. loadWorklet (Suc n) br type reg = Some (res, reg')
     \<and> addModuleCalls reg' = addModuleCalls reg1 @ replicate k (wc_url config)
     \<and> timeouts reg' = timeouts reg1 @ map backoffDelay [1 ..< Suc d]
     \<and> (d = k - 1 \<or> d = k)
     \<and> (maxRetriesOf config \<in> \<int> \<longrightarrow>
           timeouts reg' = timeouts reg1 @ map backoffDelay [1 ..< k])"
proof -
  define reg2 where "reg2 = reg1\<lparr>status := (status reg1)(type \<mapsto> Loading),
                                 emitted := emitted reg1 @ [LoadStart type]\<rparr>"
  have run: "loadWorklet (Suc n) br type reg =
               Some (attemptLoop br type config (maxRetriesOf config) 1 reg2)"
    unfolding reg2_def using assms(1-4) by (rule loadWorklet_own)
  from attemptLoop_trace[of br type config "maxRetriesOf config" reg2] obtain k d where
    "addModuleCalls (snd (attemptLoop br type config (maxRetriesOf config) 1 reg2))
          = addModuleCalls reg2 @ replicate k (wc_url config)"
    "timeouts (snd (attemptLoop br type config (maxRetriesOf config) 1 reg2))
          = timeouts reg2 @ map backoffDelay [1 ..< Suc d]"
    "d = k - 1 \<or> d = k"
    "maxRetriesOf config \<in> \<int> \<longrightarrow>
       timeouts (snd (attemptLoop br type config (maxRetriesOf config) 1 reg2))
          = timeouts reg2 @ map backoffDelay [1 ..< k]"
    by blast
  then show ?thesis using run
    by (intro exI[of _ "fst (attemptLoop br type config (maxRetriesOf config) 1 reg2)"]
              exI[of _ "snd (attemptLoop br type config (maxRetriesOf config) 1 reg2)"]
              exI[of _ k] exI[of _ d])
       (simp add: reg2_def del: upt_Suc)
qed

lemma attemptLoop_calls:
  "\<exists>own. addModuleCalls (snd (attemptLoop br t config m 1 reg)) = addModuleCalls reg @ own
     \<and> set own \<subseteq> {wc_url config}"
  using attemptLoop_trace[of br t config m reg] by auto

lemma loadDependencies_calls:
  assumes "\<And>d r res r'. L d r = Some (res, r') \<Longrightarrow> \<exists>pre. addModuleCalls r' = addModuleCalls r @ pre"
    and "loadDependencies L ds reg = Some (res, reg')"
  shows "\<exists>pre. addModuleCalls reg' = addModuleCalls reg @ pre"
  using assms(2)
proof (induction ds arbitrary: reg)
  case Nil
  then show ?case by simp
next
  case (Cons d ds)
  show ?case
  proof (cases "status reg d = Some Loaded")
    case True
    then show ?thesis using Cons by simp
  next
    case False
    then obtain r1 reg1 where l: "L d reg = Some (r1, reg1)"
      using Cons.prems by (cases "L d reg") auto
    from assms(1)[OF l] obtain p1 where p1: "addModuleCalls reg1 = addModuleCalls reg @ p1" by blast
    show ?thesis
    proof (cases r1)
      case (Inl e)
      then show ?thesis using Cons.prems False l p1 by auto
    next
      case (Inr u)
      then have "loadDependencies L ds reg1 = Some (res, reg')" using Cons.prems False l by simp
      from Cons.IH[OF this] obtain p2 where "addModuleCalls reg' = addModuleCalls reg1 @ p2" by blast
      then show ?thesis using p1 by simp
    qed
  qed
qed

lemma loadWorklet_calls:
  "loadWorklet n br t reg = Some (res, reg') \<Longrightarrow> \<exists>pre. addModuleCalls reg' = addModuleCalls reg @ pre"
proof (induction n arbitrary: t reg res reg')
  case 0
  then show ?case by simp
next
  case (Suc n)
  show ?case
  proof (cases "br_supported br")
    case False
    then show ?thesis using Suc.prems by (auto simp: Let_def)
  next
    case True
    show ?thesis
    proof (cases "configs reg t")
      case None
      then show ?thesis using Suc.prems True by (auto simp: Let_def)
    next
      case (Some config)
      define ds where "ds = (case wc_dependencies config of None \<Rightarrow> [] | Some deps \<Rightarrow> deps)"
      from Suc.prems True Some obtain r1 reg1 where
        d: "loadDependencies (loadWorklet n br) ds reg = Some (r1, reg1)"
        by (cases "loadDependencies (loadWorklet n br) ds reg") (auto simp: ds_def)
      have "\<exists>pre. addModuleCalls reg1 = addModuleCalls reg @ pre"
        using Suc.IH d by (rule loadDependencies_calls)
      then obtain p1 where p1: "addModuleCalls reg1 = addModuleCalls reg @ p1" by blast
      show ?thesis
      proof (cases "(\<exists>e. r1 = Inl e) \<or> status reg1 t = Some Loaded")
        case True
        then have "reg' = reg1" using Suc.prems \<open>br_supported br\<close> Some d
          by (auto simp: ds_def split: sum.splits)
        then show ?thesis using p1 by simp
      next
        case False
        then obtain u where u: "r1 = Inr u" by (cases r1) auto
        define reg2 where "reg2 = reg1\<lparr>status := (status reg1)(t \<mapsto> Loading),
                                       emitted := emitted reg1 @ [LoadStart t]\<rparr>"
        have "loadWorklet (Suc n) br t reg = Some (attemptLoop br t config (maxRetriesOf config) 1 reg2)"
          unfolding reg2_def using \<open>br_supported br\<close> Some d False u
          by (intro loadWorklet_own) (auto simp: ds_def)
        then have r: "reg' = snd (attemptLoop br t config (maxRetriesOf config) 1 reg2)"
          using Suc.prems by simp
        from attemptLoop_calls[of br t config "maxRetriesOf config" reg2] obtain own where
          "addModuleCalls (snd (attemptLoop br t config (maxRetriesOf config) 1 reg2)) = addModuleCalls reg2 @ own"
          by blast
        then show ?thesis using r p1 by (simp add: reg2_def)
      qed
    qed
  qed
qed

lemma loadDependencies_split:
  "loadDependencies L (ds1 @ d # ds2) reg =
     (case loadDependencies L ds1 reg of
        None \<Rightarrow> None
      | Some (Inl e, ra) \<Rightarrow> Some (Inl e, ra)
      | Some (Inr u, ra) \<Rightarrow>
          (if status ra d = Some Loaded then loadDependencies L ds2 ra
           else (case L d ra of
                   None \<Rightarrow> None
                 | Some (Inl e, rb) \<Rightarrow> Some (Inl e, rb)
                 | Some (Inr u, rb) \<Rightarrow> loadDependencies L ds2 rb)))"
  by (induction ds1 arbitrary: reg) (auto simp: Let_def split: option.splits sum.splits)

text \<open>
  Claim C4. For a supported API and a registered configuration that lists dependencies:
  \<open>loadWorklet\<close> returns exactly when the loop over the dependencies does; every call of
  \<open>addModule\<close> made while the dependencies are resolved (\<open>pre\<close>) comes before the calls
  for the worklet itself (\<open>own\<close>, all with the worklet's URL); when a dependency rejects,
  or the worklet's own status is \<open>loaded\<close> after the dependencies, no call is made for the
  worklet and the registry is left as the dependencies left it; and the dependency at any
  position of the list is handled in the registry left by the dependencies before it,
  skipped when its status is \<open>loaded\<close> and loaded by a recursive call otherwise, before
  the dependencies after it.
\<close>

theorem loadWorklet_dependencies_first:
  assumes "br_supported br" and "configs reg type = Some config"
    and "wc_dependencies config = Some deps"
  shows "(loadWorklet (Suc n) br type reg = None
            \<longleftrightarrow> loadDependencies (loadWorklet n br) deps reg = None)
    \<and> (\<forall>res reg'. loadWorklet (Suc n) br type reg = Some (res, reg') \<longrightarrow>
          (\<exists>r1 reg1 pre own.
              loadDependencies (loadWorklet n br) deps reg = Some (r1, reg1)
            \<and> addModuleCalls reg1 = addModuleCalls reg @ pre
            \<and> addModuleCalls reg' = addModuleCalls reg @ pre @ own
            \<and> set own \<subseteq> {wc_url config}
            \<and> ((\<exists>e. r1 = Inl e) \<or> status reg1 type = Some Loaded
                  \<longrightarrow> own = [] \<and> reg' = reg1 \<and> res = r1)))
    \<and> (\<forall>ds1 d ds2 ra. deps = ds1 @ d # ds2
          \<and> loadDependencies (loadWorklet n br) ds1 reg = Some (Inr (), ra) \<longrightarrow>
          loadDependencies (loadWorklet n br) deps reg =
            (if status ra d = Some Loaded then loadDependencies (loadWorklet n br) ds2 ra
             else (case loadWorklet n br d ra of
                     None \<Rightarrow> None
                   | Some (Inl e, rb) \<Rightarrow> Some (Inl e, rb)
                   | Some (Inr u, rb) \<Rightarrow> loadDependencies (loadWorklet n br) ds2 rb)))"
proof (intro conjI allI impI)
  show "loadWorklet (Suc n) br type reg = None
            \<longleftrightarrow> loadDependencies (loadWorklet n br) deps reg = None"
    using assms by (auto simp: Let_def split: option.splits sum.splits)
next
  fix res reg'
  assume run: "loadWorklet (Suc n) br type reg = Some (res, reg')"
  then obtain r1 reg1 where d: "loadDependencies (loadWorklet n br) deps reg = Some (r1, reg1)"
    using assms by (cases "loadDependencies (loadWorklet n br) deps reg") auto
  have "\<exists>pre. addModuleCalls reg1 = addModuleCalls reg @ pre"
    using loadWorklet_calls d by (rule loadDependencies_calls)
  then obtain pre where pre: "addModuleCalls reg1 = addModuleCalls reg @ pre" by blast
  show "\<exists>r1 reg1 pre own.
              loadDependencies (loadWorklet n br) deps reg = Some (r1, reg1)
            \<and> addModuleCalls reg1 = addModuleCalls reg @ pre
            \<and> addModuleCalls reg' = addModuleCalls reg @ pre @ own
            \<and> set own \<subseteq> {wc_url config}
            \<and> ((\<exists>e. r1 = Inl e) \<or> status reg1 type = Some Loaded
                  \<longrightarrow> own = [] \<and> reg' = reg1 \<and> res = r1)"
  proof (cases "(\<exists>e. r1 = Inl e) \<or> status reg1 type = Some Loaded")
    case True
    then have "reg' = reg1 \<and> res = r1" using run assms d
      by (auto split: sum.splits)
    then show ?thesis using d pre True
      by (intro exI[of _ r1] exI[of _ reg1] exI[of _ pre] exI[of _ "[]"]) simp
  next
    case False
    then obtain u where u: "r1 = Inr u" by (cases r1) auto
    define reg2 where "reg2 = reg1\<lparr>status := (status reg1)(type \<mapsto> Loading),
                                   emitted := emitted reg1 @ [LoadStart type]\<rparr>"
    have "loadWorklet (Suc n) br type reg = Some (attemptLoop br type config (maxRetriesOf config) 1 reg2)"
      unfolding reg2_def using assms d False u
      by (intro loadWorklet_own) auto
    then have r: "reg' = snd (attemptLoop br type config (maxRetriesOf config) 1 reg2)"
      using run by simp
    from attemptLoop_calls[of br type config "maxRetriesOf config" reg2] obtain own where
      "addModuleCalls (snd (attemptLoop br type config (maxRetriesOf config) 1 reg2)) = addModuleCalls reg2 @ own"
      "set own \<subseteq> {wc_url config}"
      by blast
    then show ?thesis using d pre False r
      by (intro exI[of _ r1] exI[of _ reg1] exI[of _ pre] exI[of _ own]) (simp add: reg2_def)
  qed
next
  fix ds1 d ds2 ra
  assume "deps = ds1 @ d # ds2 \<and> loadDependencies (loadWorklet n br) ds1 reg = Some (Inr (), ra)"
  then show "loadDependencies (loadWorklet n br) deps reg =
            (if status ra d = Some Loaded then loadDependencies (loadWorklet n br) ds2 ra
             else (case loadWorklet n br d ra of
                     None \<Rightarrow> None
                   | Some (Inl e, rb) \<Rightarrow> Some (Inl e, rb)
                   | Some (Inr u, rb) \<Rightarrow> loadDependencies (loadWorklet n br) ds2 rb))"
    by (simp add: loadDependencies_split)
qed

lemmas registry_eval =
  newRegistry_def initDefaultConfigs_def defaultConfigs_def register_def maxRetriesOf_def
  setAdd_def Let_def attemptLoop.simps

text \<open>
  Claim C3, as stated, bounds the number of calls of \<open>addModule\<close> by \<open>retryCount\<close>, and
  has a required worklet reject once every attempt has failed. The bound fails for
  \<open>retryCount = 0\<close>: \<open>config.retryCount || 1\<close> is 1, and one call is made. The rejection
  fails for the fractional \<open>retryCount = 2.5\<close> of a required worklet: two calls are made
  and fail, \<open>attempt === maxRetries\<close> holds for neither, the loop ends at
  \<open>3 <= 2.5\<close>, the status is still \<open>loading\<close>, no \<open>error\<close> event is emitted and the
  promise resolves.
\<close>

theorem loadWorklet_retry_counterexample:
  "addModuleCalls (snd (the (loadWorklet 1 failingBrowser GradientEngine
      (register gradientNoRetry newRegistry)))) = [''/worklets/gradient-engine.js'']
   \<and> configs (register gradientNoRetry newRegistry) GradientEngine = Some gradientNoRetry
   \<and> wc_retryCount gradientNoRetry = Some 0
   \<and> configs (register textFractionalRetry newRegistry) TextRenderer = Some textFractionalRetry
   \<and> wc_retryCount textFractionalRetry = Some (5 / 2)
   \<and> wc_isRequired textFractionalRetry = Some True
   \<and> loadWorklet 1 failingBrowser TextRenderer (register textFractionalRetry newRegistry)
     = Some (Inr (),
         (register textFractionalRetry newRegistry)
           \<lparr>status := (status (register textFractionalRetry newRegistry))
                        (TextRenderer \<mapsto> Loading),
            emitted := [LoadStart TextRenderer],
            addModuleCalls := replicate 2 ''/worklets/text-renderer.js'',
            timeouts := [200, 400]\<rparr>)"
  by (simp add: registry_eval failingBrowser_def gradientNoRetry_def textFractionalRetry_def
        numeral_2_eq_2)

text \<open>
  Claim C5, as stated, says the delay is the same for every attempt. For the default
  configuration of \<open>text-renderer\<close> (three attempts) and a browser in which every call
  fails, the two delays are 200 and 400 milliseconds.
\<close>

theorem loadWorklet_backoff_counterexample:
  "timeouts (snd (the (loadWorklet 1 failingBrowser TextRenderer newRegistry))) = [200, 400]
   \<and> timeouts (snd (the (loadWorklet 1 failingBrowser TextRenderer newRegistry))) ! 0
     \<noteq> timeouts (snd (the (loadWorklet 1 failingBrowser TextRenderer newRegistry))) ! 1"
  by (simp add: registry_eval failingBrowser_def)

text \<open>
  The default configuration of \<open>text-renderer\<close> (required, three attempts) in a browser
  where every call fails: three calls, status \<open>error\<close>, rejection with the last error.
  The default \<open>layout-engine\<close> (not required) resolves.
\<close>

theorem loadWorklet_retry_witness:
  "map_option fst (loadWorklet 1 failingBrowser TextRenderer newRegistry) = Some (Inl (Error ''network''))
   \<and> addModuleCalls (snd (the (loadWorklet 1 failingBrowser TextRenderer newRegistry)))
       = replicate 3 ''/worklets/text-renderer.js''
   \<and> status (snd (the (loadWorklet 1 failingBrowser TextRenderer newRegistry))) TextRenderer
       = Some StatusError
   \<and> map_option fst (loadWorklet 1 failingBrowser LayoutEngine newRegistry) = Some (Inr ())"
  using loadWorklet_retry [of failingBrowser newRegistry TextRenderer
      "\<lparr>wc_type = TextRenderer, wc_url = ''/worklets/text-renderer.js'',
        wc_dependencies = None, wc_isRequired = Some True, wc_retryCount = Some 3\<rparr>" 0 newRegistry 3]
  by (simp add: registry_eval failingBrowser_def numeral_3_eq_3)

text \<open>
  The delays of the three failing attempts of the default \<open>canvas-engine\<close>, whose
  \<open>retryCount\<close> is the whole number 3.
\<close>

theorem loadWorklet_backoff_witness:
  "timeouts (snd (the (loadWorklet 1 failingBrowser CanvasEngine newRegistry)))
     = [backoffDelay 1, backoffDelay 2]
   \<and> backoffDelay 1 = 200 \<and> backoffDelay 2 = 400
   \<and> maxRetriesOf \<lparr>wc_type = CanvasEngine, wc_url = ''/worklets/canvas-engine.js'',
        wc_dependencies = None, wc_isRequired = Some True, wc_retryCount = Some 3\<rparr> \<in> \<int>"
  using loadWorklet_backoff [of failingBrowser newRegistry CanvasEngine
      "\<lparr>wc_type = CanvasEngine, wc_url = ''/worklets/canvas-engine.js'',
        wc_dependencies = None, wc_isRequired = Some True, wc_retryCount = Some 3\<rparr>" 0 newRegistry]
  by (simp add: registry_eval failingBrowser_def backoffDelay_def)

text \<open>
  A \<open>layout-engine\<close> configuration depending on \<open>text-renderer\<close> and \<open>canvas-engine\<close>, in
  a browser where every call succeeds: the dependencies load in the listed order, then the
  worklet itself.
\<close>

theorem loadWorklet_dependencies_first_witness:
  "map_option fst (loadWorklet 2 workingBrowser LayoutEngine (register layoutWithDependencies newRegistry))
     = Some (Inr ())
   \<and> addModuleCalls (snd (the (loadWorklet 2 workingBrowser LayoutEngine
        (register layoutWithDependencies newRegistry))))
     = [''/worklets/text-renderer.js'', ''/worklets/canvas-engine.js'', ''/worklets/layout-engine.js'']
   \<and> emitted (snd (the (loadWorklet 2 workingBrowser LayoutEngine
        (register layoutWithDependencies newRegistry))))
     = [LoadStart TextRenderer, Load TextRenderer, LoadStart CanvasEngine, Load CanvasEngine,
        LoadStart LayoutEngine, Load LayoutEngine]"
  using loadWorklet_dependencies_first [of workingBrowser "register layoutWithDependencies newRegistry"
      LayoutEngine layoutWithDependencies "[TextRenderer, CanvasEngine]" 1]
  by (simp add: registry_eval workingBrowser_def layoutWithDependencies_def numeral_2_eq_2)

text \<open>
  A negative \<open>retryCount\<close>: the loop makes no attempt, the status stays \<open>loading\<close> and
  the promise resolves.
\<close>

lemma loadWorklet_negative_retryCount:
  "loadWorklet 1 failingBrowser GradientEngine (register gradientNegativeRetry newRegistry)
     = Some (Inr (),
         (register gradientNegativeRetry newRegistry)
           \<lparr>status := (status (register gradientNegativeRetry newRegistry))
                        (GradientEngine \<mapsto> Loading),
            emitted := [LoadStart GradientEngine]\<rparr>)"
  by (simp add: registry_eval failingBrowser_def gradientNegativeRetry_def)

end
